theory Spec2Isabelle
  imports Complex_Main
begin

section \<open>Data model (reviews/models.py)\<close>

text \<open>
  Every model class is a record; the primary key Django adds to each model is the
  field ending in \<open>_id\<close>. A foreign key holds the primary key of the row it
  points to, and a nullable column is an \<open>option\<close>. Of the columns that
  \<open>AbstractUser\<close> contributes, the ones the API serializers read or write are kept.
\<close>

record user =
  user_id :: nat
  username :: "string option"
  email :: string
  role :: string
  bio :: "string option"
  first_name :: string
  last_name :: string

definition ADMIN :: string where
  "ADMIN = ''admin''"

definition MODERATOR :: string where
  "MODERATOR = ''moderator''"

definition USER :: string where
  "USER = ''user''"

definition roles :: "(string \<times> string) list" where
  "roles = [(ADMIN, ''Administrator''), (MODERATOR, ''Moderator''), (USER, ''User'')]"

definition is_moderator :: "user \<Rightarrow> bool" where
  "is_moderator u = (role u = MODERATOR)"

definition is_admin :: "user \<Rightarrow> bool" where
  "is_admin u = (role u = ADMIN)"

record category =
  category_id :: nat
  category_name :: string
  category_slug :: string

record genre =
  genre_id :: nat
  genre_name :: string
  genre_slug :: string

record title =
  title_id :: nat
  title_name :: string
  year :: int
  description :: "string option"
  category :: "nat option"

record genre_title =
  genre_title_id :: nat
  gt_title :: "nat option"
  gt_genre :: "nat option"

record review =
  review_id :: nat
  title :: nat
  review_text :: string
  author :: nat
  score :: int
  pub_date :: nat

record comment =
  comment_id :: nat
  review :: nat
  comment_text :: string
  comment_author :: nat
  comment_pub_date :: nat

text \<open>A message handed to \<open>send_mail\<close>: subject, body, sender, recipients.\<close>

record mail =
  subject :: string
  message :: string
  from_email :: string
  recipient_list :: "string list"

text \<open>
  The relational store: one list of rows per table, and the messages the mail
  collaborator has delivered so far.
\<close>

record store =
  users :: "user list"
  categories :: "category list"
  genres :: "genre list"
  titles :: "title list"
  genre_titles :: "genre_title list"
  reviews :: "review list"
  comments :: "comment list"
  outbox :: "mail list"

definition empty_store :: store where
  "empty_store = \<lparr>users = [], categories = [], genres = [], titles = [],
     genre_titles = [], reviews = [], comments = [], outbox = []\<rparr>"

text \<open>The next value of an auto-incrementing primary key.\<close>

definition next_id :: "nat list \<Rightarrow> nat" where
  "next_id ids = Suc (fold max ids 0)"

section \<open>Outcomes\<close>

text \<open>
  An exception is a value. \<open>ValidationError\<close> is
  \<open>rest_framework.serializers.ValidationError\<close> and carries, per field, the codes
  of the checks that failed (\<open>non_field_errors\<close> for the object-level
  \<open>validate\<close>); \<open>Http404\<close> is what \<open>get_object_or_404\<close> raises;
  \<open>IntegrityError\<close> is the database refusing a row that breaks a constraint;
  \<open>NotAuthenticated\<close> and \<open>PermissionDenied\<close> are what a view raises when a
  permission class refuses; \<open>DoesNotExist\<close> and \<open>MultipleObjectsReturned\<close> are
  what \<open>QuerySet.get\<close> raises; \<open>TypeError\<close>, \<open>KeyError\<close> and
  \<open>ValueError\<close> are Python's; \<open>SMTPException\<close> is what \<open>send_mail\<close> raises
  when the message cannot be delivered. The messages the source writes in Russian are
  rendered in English. \<open>ConflictError\<close> and \<open>AuthenticationError\<close> are the
  two outcomes of the specification's taxonomy that have no exception class of their
  own in the code: no function below returns them.
\<close>

datatype error =
    ValidationError "(string \<times> string list) list"
  | Http404
  | IntegrityError
  | DoesNotExist
  | MultipleObjectsReturned
  | TypeError
  | KeyError
  | ValueError
  | SMTPException
  | NotAuthenticated
  | PermissionDenied
  | ConflictError
  | AuthenticationError

text \<open>A response is its body and its HTTP status.\<close>

type_synonym 'a response = "'a \<times> nat"

definition HTTP_200_OK :: nat where
  "HTTP_200_OK = 200"

definition HTTP_201_CREATED :: nat where
  "HTTP_201_CREATED = 201"

definition HTTP_204_NO_CONTENT :: nat where
  "HTTP_204_NO_CONTENT = 204"

definition HTTP_400_BAD_REQUEST :: nat where
  "HTTP_400_BAD_REQUEST = 400"

definition HTTP_405_METHOD_NOT_ALLOWED :: nat where
  "HTTP_405_METHOD_NOT_ALLOWED = 405"

section \<open>Collaborators outside the three source files\<close>

text \<open>
  What the views call but do not define: Django's \<open>send_mail\<close> (whether the mail
  backend delivers a message; the views leave \<open>fail_silently\<close> at \<open>False\<close>, so
  a message that is not delivered raises), Django's \<open>default_token_generator\<close>,
  \<open>AccessToken.for_user\<close> of the JWT library (the token as the string the view
  returns), Django's e-mail address validator, today's year, the \<open>DOMAIN_NAME\<close>
  setting, and the permission classes and the title filter of the API package
  (\<open>api/permissions.py\<close>, \<open>api/filters.py\<close>). A permission class is the decision
  of its \<open>has_permission\<close> for a request method and a requester;
  \<open>IsAdminModeratorOwnerOrReadOnly_obj\<close> is the object-level decision, which
  receives the author of the object as well.
\<close>

record env =
  send_mail :: "mail \<Rightarrow> bool"
  check_token :: "user \<Rightarrow> string \<Rightarrow> bool"
  make_token :: "user \<Rightarrow> string"
  AccessToken_for_user :: "user \<Rightarrow> string"
  EmailValidator :: "string \<Rightarrow> bool"
  today_year :: int
  DOMAIN_NAME :: string
  IsAdmin :: "string \<Rightarrow> user option \<Rightarrow> bool"
  IsAdminOrReadOnly :: "string \<Rightarrow> user option \<Rightarrow> bool"
  IsAdminModeratorOwnerOrReadOnly :: "string \<Rightarrow> user option \<Rightarrow> bool"
  IsAdminModeratorOwnerOrReadOnly_obj :: "string \<Rightarrow> user option \<Rightarrow> nat \<Rightarrow> bool"
  TitleFilter :: "title list \<Rightarrow> title list"

text \<open>
  The requester is \<open>request.user\<close>: \<open>None\<close> for the anonymous user. A view
  whose permission class refuses raises \<open>NotAuthenticated\<close> for an anonymous
  requester and \<open>PermissionDenied\<close> otherwise.
\<close>

definition permission_denied :: "user option \<Rightarrow> error" where
  "permission_denied actor =
     (case actor of None \<Rightarrow> NotAuthenticated | Some _ \<Rightarrow> PermissionDenied)"

definition IsAuthenticated :: "user option \<Rightarrow> bool" where
  "IsAuthenticated actor = (actor \<noteq> None)"

definition AllowAny :: "user option \<Rightarrow> bool" where
  "AllowAny actor = True"

section \<open>Serializer fields (rest_framework)\<close>

text \<open>
  A string is a list of code points below 256. \<open>request.data\<close> is a JSON object
  whose members, when present, have the type the field expects: a string for a
  character field, an integer for an integer field; \<open>None\<close> is a member that is
  missing. A field's validation returns the codes of the checks that failed, or the
  validated value (\<open>None\<close> when the field is left out of the validated data).
\<close>

definition py_isspace :: "char \<Rightarrow> bool" where
  "py_isspace c = (c \<in> set [CHR 0x09, CHR 0x0A, CHR 0x0B, CHR 0x0C, CHR 0x0D, CHR 0x1C,
                            CHR 0x1D, CHR 0x1E, CHR 0x1F, CHR 0x20, CHR 0x85, CHR 0xA0])"

definition strip :: "string \<Rightarrow> string" where
  "strip v = rev (dropWhile py_isspace (rev (dropWhile py_isspace v)))"

text \<open>The regular expression class \<open>\w\<close> on a Python string.\<close>

definition py_isword :: "char \<Rightarrow> bool" where
  "py_isword c =
     (let n = (of_char c :: nat)
      in (48 \<le> n \<and> n \<le> 57) \<or> (65 \<le> n \<and> n \<le> 90) \<or> n = 95 \<or> (97 \<le> n \<and> n \<le> 122)
         \<or> n \<in> set [170, 178, 179, 181, 185, 186, 188, 189, 190]
         \<or> (192 \<le> n \<and> n \<le> 214) \<or> (216 \<le> n \<and> n \<le> 246) \<or> 248 \<le> n)"

text \<open>A validator is its check and the code of the error it raises.\<close>

type_synonym 'a validator = "('a \<Rightarrow> bool) \<times> string"

definition run_validators :: "'a validator list \<Rightarrow> 'a \<Rightarrow> string list" where
  "run_validators vs v = map snd (filter (\<lambda>x. \<not> fst x v) vs)"

text \<open>\<open>UnicodeUsernameValidator\<close>: the pattern \<open>^[\w.@+-]+\Z\<close>.\<close>

definition UnicodeUsernameValidator :: "string validator" where
  "UnicodeUsernameValidator =
     (\<lambda>v. v \<noteq> [] \<and> list_all (\<lambda>c. py_isword c \<or> c \<in> set ''.@+-'') v, ''invalid'')"

text \<open>
  \<open>UniqueValidator(queryset=...)\<close> on a column: the value is none of the values
  the column has in the queryset (the rows other than the instance being updated).
\<close>

definition UniqueValidator :: "'a list \<Rightarrow> 'a validator" where
  "UniqueValidator taken = (\<lambda>v. v \<notin> set taken, ''unique'')"

definition MaxLengthValidator :: "nat \<Rightarrow> string validator" where
  "MaxLengthValidator n = (\<lambda>v. length v \<le> n, ''max_length'')"

definition ProhibitNullCharactersValidator :: "string validator" where
  "ProhibitNullCharactersValidator = (\<lambda>v. CHR 0x00 \<notin> set v, ''null_characters_not_allowed'')"

definition MinValueValidator :: "int \<Rightarrow> int validator" where
  "MinValueValidator n = (\<lambda>v. n \<le> v, ''min_value'')"

definition MaxValueValidator :: "int \<Rightarrow> int validator" where
  "MaxValueValidator n = (\<lambda>v. v \<le> n, ''max_value'')"

text \<open>
  \<open>CharField(required, allow_blank, validators)\<close>: a missing member is an error
  when the field is required and is skipped otherwise; the value is stripped of
  surrounding whitespace; a blank value is an error unless blanks are allowed; then
  every validator runs and the failures are collected. The validators are the declared
  ones, then the length limit, then the null-character check every \<open>CharField\<close>
  has.
\<close>

definition CharField ::
  "bool \<Rightarrow> bool \<Rightarrow> string validator list \<Rightarrow> string option \<Rightarrow> string list + string option" where
  "CharField required allow_blank validators data =
     (case data of
        None \<Rightarrow> if required then Inl [''required''] else Inr None
      | Some v \<Rightarrow>
          if strip v = [] then (if allow_blank then Inr (Some []) else Inl [''blank''])
          else (case run_validators validators (strip v) of
                  [] \<Rightarrow> Inr (Some (strip v))
                | c # cs \<Rightarrow> Inl (c # cs)))"

definition IntegerField ::
  "bool \<Rightarrow> int validator list \<Rightarrow> int option \<Rightarrow> string list + int option" where
  "IntegerField required validators data =
     (case data of
        None \<Rightarrow> if required then Inl [''required''] else Inr None
      | Some v \<Rightarrow>
          (case run_validators validators v of
             [] \<Rightarrow> Inr (Some v)
           | c # cs \<Rightarrow> Inl (c # cs)))"

definition ChoiceField ::
  "bool \<Rightarrow> string list \<Rightarrow> string option \<Rightarrow> string list + string option" where
  "ChoiceField required choices data =
     (case data of
        None \<Rightarrow> if required then Inl [''required''] else Inr None
      | Some v \<Rightarrow> if v \<in> set choices then Inr (Some v) else Inl [''invalid_choice''])"

text \<open>
  A serializer's \<open>validate_<field>\<close> method runs on the value of a field that
  passed its own validation.
\<close>

definition validate_with ::
  "('a \<Rightarrow> string list + 'a) \<Rightarrow> string list + 'a option \<Rightarrow> string list + 'a option" where
  "validate_with validate_method r =
     (case r of
        Inr (Some v) \<Rightarrow> (case validate_method v of Inl es \<Rightarrow> Inl es | Inr v' \<Rightarrow> Inr (Some v'))
      | _ \<Rightarrow> r)"

definition field_errors :: "string \<Rightarrow> string list + 'a option \<Rightarrow> (string \<times> string list) list" where
  "field_errors field_name r = (case r of Inl es \<Rightarrow> [(field_name, es)] | Inr _ \<Rightarrow> [])"

definition field_value :: "string list + 'a option \<Rightarrow> 'a option" where
  "field_value r = (case r of Inl _ \<Rightarrow> None | Inr v \<Rightarrow> v)"

text \<open>
  \<open>get_object_or_404\<close> on the rows a lookup selects: \<open>QuerySet.get\<close> raises
  \<open>DoesNotExist\<close> over no row, which becomes \<open>Http404\<close>, and
  \<open>MultipleObjectsReturned\<close> over more than one.
\<close>

definition get_object_or_404 :: "'a list \<Rightarrow> error + 'a" where
  "get_object_or_404 rows =
     (case rows of [] \<Rightarrow> Inl Http404 | [x] \<Rightarrow> Inr x | _ # _ # _ \<Rightarrow> Inl MultipleObjectsReturned)"

section \<open>Reading a title (TitleViewSet, ReadOnlyTitleSerializer)\<close>

text \<open>
  \<open>Avg\<close> is the SQL aggregate: the mean of the rows, \<open>NULL\<close> over no rows. The
  mean is kept exact here, as a rational.
\<close>

definition Avg :: "int list \<Rightarrow> rat option" where
  "Avg xs = (if xs = [] then None
             else Some (of_int (sum_list xs) / of_int (int (length xs))))"

text \<open>
  \<open>Title.objects.all().annotate(rating=Avg('reviews__score'))\<close>: the aggregate
  runs over the scores of the reviews whose \<open>title\<close> is this title.
\<close>

definition annotate_rating :: "store \<Rightarrow> title \<Rightarrow> rat option" where
  "annotate_rating s t =
     Avg (map score (filter (\<lambda>r. title r = title_id t) (reviews s)))"

text \<open>Python's \<open>int()\<close> on a number drops the fractional part.\<close>

definition py_int :: "rat \<Rightarrow> int" where
  "py_int q = (if 0 \<le> q then \<lfloor>q\<rfloor> else \<lceil>q\<rceil>)"

text \<open>
  \<open>rating = serializers.IntegerField(read_only=True)\<close>: a serializer writes
  \<open>None\<close> for an attribute that is \<open>None\<close> and the field's representation,
  \<open>int(value)\<close>, otherwise.
\<close>

definition IntegerField_to_representation :: "rat option \<Rightarrow> int option" where
  "IntegerField_to_representation v = map_option py_int v"

definition CategorySerializer :: "category \<Rightarrow> string \<times> string" where
  "CategorySerializer c = (category_name c, category_slug c)"

definition GenreSerializer :: "genre \<Rightarrow> string \<times> string" where
  "GenreSerializer g = (genre_name g, genre_slug g)"

text \<open>
  \<open>title.genre.all()\<close>: the genres joined to the title through \<open>GenreTitle\<close>,
  one per join row, in the order of \<open>Genre.Meta.ordering\<close>.
\<close>

definition title_genre_all :: "store \<Rightarrow> title \<Rightarrow> genre list" where
  "title_genre_all s t =
     sort_key genre_id
       (concat (map (\<lambda>gt. filter (\<lambda>g. gt_genre gt = Some (genre_id g)) (genres s))
                    (filter (\<lambda>gt. gt_title gt = Some (title_id t)) (genre_titles s))))"

definition title_category :: "store \<Rightarrow> title \<Rightarrow> category option" where
  "title_category s t =
     (case category t of None \<Rightarrow> None
      | Some c \<Rightarrow> find (\<lambda>x. category_id x = c) (categories s))"

record title_repr =
  repr_id :: nat
  repr_name :: string
  repr_year :: int
  repr_description :: "string option"
  repr_rating :: "int option"
  repr_genre :: "(string \<times> string) list"
  repr_category :: "(string \<times> string) option"

definition ReadOnlyTitleSerializer :: "store \<Rightarrow> title \<Rightarrow> title_repr" where
  "ReadOnlyTitleSerializer s t =
     \<lparr>repr_id = title_id t, repr_name = title_name t, repr_year = year t,
      repr_description = description t,
      repr_rating = IntegerField_to_representation (annotate_rating s t),
      repr_genre = map GenreSerializer (title_genre_all s t),
      repr_category = map_option CategorySerializer (title_category s t)\<rparr>"

text \<open>
  \<open>retrieve\<close> and \<open>list\<close> of \<open>TitleViewSet\<close>: both use
  \<open>ReadOnlyTitleSerializer\<close> over the annotated queryset. \<open>list\<close> serializes the
  rows the filter backend lets through.
\<close>

definition TitleViewSet_retrieve ::
  "env \<Rightarrow> store \<Rightarrow> user option \<Rightarrow> nat \<Rightarrow> error + title_repr response" where
  "TitleViewSet_retrieve e s actor pk =
     (if \<not> IsAdminOrReadOnly e ''GET'' actor then Inl (permission_denied actor)
      else case get_object_or_404 (filter (\<lambda>t. title_id t = pk) (titles s)) of
             Inl err \<Rightarrow> Inl err
           | Inr t \<Rightarrow> Inr (ReadOnlyTitleSerializer s t, HTTP_200_OK))"

definition TitleViewSet_list ::
  "env \<Rightarrow> store \<Rightarrow> user option \<Rightarrow> error + title_repr list response" where
  "TitleViewSet_list e s actor =
     (if \<not> IsAdminOrReadOnly e ''GET'' actor then Inl (permission_denied actor)
      else Inr (map (ReadOnlyTitleSerializer s) (TitleFilter e (titles s)), HTTP_200_OK))"

section \<open>Users: serializers (api/serializers.py)\<close>

text \<open>
  The data of a request on users, and the validated data of the user serializers: one
  optional member per field.
\<close>

record user_data =
  d_username :: "string option"
  d_email :: "string option"
  d_role :: "string option"
  d_bio :: "string option"
  d_first_name :: "string option"
  d_last_name :: "string option"

text \<open>
  \<open>User.objects.all()\<close> as the unique validators see it: the values of a column
  in the rows other than the serializer's instance.
\<close>

definition queryset_usernames :: "store \<Rightarrow> user option \<Rightarrow> string list" where
  "queryset_usernames s instance =
     List.map_filter username
       (filter (\<lambda>u. Some (user_id u) \<noteq> map_option user_id instance) (users s))"

definition queryset_emails :: "store \<Rightarrow> user option \<Rightarrow> string list" where
  "queryset_emails s instance =
     map email (filter (\<lambda>u. Some (user_id u) \<noteq> map_option user_id instance) (users s))"

definition username_field :: "store \<Rightarrow> user option \<Rightarrow> bool \<Rightarrow> string option \<Rightarrow> string list + string option" where
  "username_field s instance partial data =
     CharField (\<not> partial) False
       [UnicodeUsernameValidator, UniqueValidator (queryset_usernames s instance),
        MaxLengthValidator 150, ProhibitNullCharactersValidator] data"

definition email_field :: "env \<Rightarrow> store \<Rightarrow> user option \<Rightarrow> bool \<Rightarrow> string option \<Rightarrow> string list + string option" where
  "email_field e s instance partial data =
     CharField (\<not> partial) False
       [UniqueValidator (queryset_emails s instance),
        MaxLengthValidator 254, ProhibitNullCharactersValidator,
        (EmailValidator e, ''invalid'')] data"

definition validate_username :: "string \<Rightarrow> string list + string" where
  "validate_username v = (if v = ''me'' then Inl [''Username me is not valid''] else Inr v)"

text \<open>
  \<open>RegisterDataSerializer(data=...).is_valid(raise_exception=True)\<close>, returning
  \<open>validated_data.get('username')\<close> and \<open>validated_data.get('email')\<close>.
\<close>

definition RegisterDataSerializer_is_valid ::
  "env \<Rightarrow> store \<Rightarrow> user_data \<Rightarrow> error + (string option \<times> string option)" where
  "RegisterDataSerializer_is_valid e s data =
     (let u = validate_with validate_username (username_field s None False (d_username data));
          m = email_field e s None False (d_email data);
          errors = field_errors ''username'' u @ field_errors ''email'' m
      in if errors = [] then Inr (field_value u, field_value m)
         else Inl (ValidationError errors))"

text \<open>
  \<open>UserSerializer\<close>, for the serializer's instance (\<open>None\<close> on creation) and
  its \<open>partial\<close> flag. The fields the class does not declare come from the model:
  \<open>role\<close> is a choice among \<open>roles\<close>, \<open>bio\<close>, \<open>first_name\<close> and
  \<open>last_name\<close> may be blank, and none of the four is required.
\<close>

definition UserSerializer_is_valid ::
  "env \<Rightarrow> store \<Rightarrow> user option \<Rightarrow> bool \<Rightarrow> user_data \<Rightarrow> error + user_data" where
  "UserSerializer_is_valid e s instance partial data =
     (let u = username_field s instance partial (d_username data);
          m = email_field e s instance partial (d_email data);
          r = ChoiceField False (map fst roles) (d_role data);
          b = CharField False True [ProhibitNullCharactersValidator] (d_bio data);
          f = CharField False True [MaxLengthValidator 150, ProhibitNullCharactersValidator]
                (d_first_name data);
          l = CharField False True [MaxLengthValidator 150, ProhibitNullCharactersValidator]
                (d_last_name data);
          errors = field_errors ''username'' u @ field_errors ''email'' m
                   @ field_errors ''role'' r @ field_errors ''bio'' b
                   @ field_errors ''first_name'' f @ field_errors ''last_name'' l
      in if errors = []
         then Inr \<lparr>d_username = field_value u, d_email = field_value m,
                   d_role = field_value r, d_bio = field_value b,
                   d_first_name = field_value f, d_last_name = field_value l\<rparr>
         else Inl (ValidationError errors))"

text \<open>
  \<open>UserEditSerializer\<close>: the same fields, with \<open>role\<close> among
  \<open>read_only_fields\<close>: a read-only field takes no input, so the validated data
  never has a \<open>role\<close>.
\<close>

definition UserEditSerializer_is_valid ::
  "env \<Rightarrow> store \<Rightarrow> user option \<Rightarrow> bool \<Rightarrow> user_data \<Rightarrow> error + user_data" where
  "UserEditSerializer_is_valid e s instance partial data =
     (let u = username_field s instance partial (d_username data);
          m = email_field e s instance partial (d_email data);
          f = CharField False True [MaxLengthValidator 150, ProhibitNullCharactersValidator]
                (d_first_name data);
          l = CharField False True [MaxLengthValidator 150, ProhibitNullCharactersValidator]
                (d_last_name data);
          b = CharField False True [ProhibitNullCharactersValidator] (d_bio data);
          errors = field_errors ''username'' u @ field_errors ''email'' m
                   @ field_errors ''first_name'' f @ field_errors ''last_name'' l
                   @ field_errors ''bio'' b
      in if errors = []
         then Inr \<lparr>d_username = field_value u, d_email = field_value m,
                   d_role = None, d_bio = field_value b,
                   d_first_name = field_value f, d_last_name = field_value l\<rparr>
         else Inl (ValidationError errors))"

text \<open>
  \<open>ModelSerializer.update\<close> sets on the instance every attribute the validated
  data has; \<open>ModelSerializer.create\<close> builds the row from the validated data over
  the defaults of the model's columns.
\<close>

definition set_attrs :: "user \<Rightarrow> user_data \<Rightarrow> user" where
  "set_attrs u d =
     u\<lparr>username := (case d_username d of None \<Rightarrow> username u | Some v \<Rightarrow> Some v),
       email := (case d_email d of None \<Rightarrow> email u | Some v \<Rightarrow> v),
       role := (case d_role d of None \<Rightarrow> role u | Some v \<Rightarrow> v),
       bio := (case d_bio d of None \<Rightarrow> bio u | Some v \<Rightarrow> Some v),
       first_name := (case d_first_name d of None \<Rightarrow> first_name u | Some v \<Rightarrow> v),
       last_name := (case d_last_name d of None \<Rightarrow> last_name u | Some v \<Rightarrow> v)\<rparr>"

definition new_user :: "store \<Rightarrow> user" where
  "new_user s = \<lparr>user_id = next_id (map user_id (users s)), username = None, email = [],
     role = USER, bio = None, first_name = [], last_name = []\<rparr>"

text \<open>
  The unique constraints of the user table (\<open>unique=True\<close> on \<open>username\<close> and on
  \<open>email\<close>), checked against the other rows; \<open>NULL\<close> user names do not clash.
\<close>

definition user_unique :: "store \<Rightarrow> user \<Rightarrow> bool" where
  "user_unique s u =
     (let others = filter (\<lambda>x. user_id x \<noteq> user_id u) (users s)
      in email u \<notin> set (map email others)
         \<and> (username u = None \<or> username u \<notin> set (map username others)))"

text \<open>
  \<open>instance.save()\<close>: an \<open>UPDATE\<close> of the row with the instance's primary key,
  an \<open>INSERT\<close> when there is no such row.
\<close>

definition save_user :: "store \<Rightarrow> user \<Rightarrow> error + store" where
  "save_user s u =
     (if \<not> user_unique s u then Inl IntegrityError
      else if user_id u \<in> set (map user_id (users s))
      then Inr (s\<lparr>users := map (\<lambda>x. if user_id x = user_id u then u else x) (users s)\<rparr>)
      else Inr (s\<lparr>users := users s @ [u]\<rparr>))"

section \<open>Users: views (api/views.py)\<close>

text \<open>
  A view takes the store and returns its outcome with the store it leaves. A request
  that raises leaves the store as it was, but for \<open>register\<close>: it sends the mail
  after \<open>get_or_create\<close> has written the row, with no transaction around the two,
  so the row stays when the mail raises. The body of a response on a user is the
  user's row.
\<close>

text \<open>
  \<open>send_confirm_mail\<close>: the message with the code \<open>make_token\<close> gives for the
  user, handed to \<open>send_mail\<close>. Nothing catches what \<open>send_mail\<close> raises.
\<close>

definition confirmation_mail :: "env \<Rightarrow> user \<Rightarrow> mail" where
  "confirmation_mail e u =
     (let confirmation_code = make_token e u
      in \<lparr>subject = ''YaMDb registration'',
          message = ''confirmation code: '' @ confirmation_code,
          from_email = DOMAIN_NAME e,
          recipient_list = [email u]\<rparr>)"

definition send_confirm_mail :: "env \<Rightarrow> store \<Rightarrow> user \<Rightarrow> error + store" where
  "send_confirm_mail e s u =
     (if send_mail e (confirmation_mail e u)
      then Inr (s\<lparr>outbox := outbox s @ [confirmation_mail e u]\<rparr>)
      else Inl SMTPException)"

text \<open>
  \<open>User.objects.get_or_create(username=username, email=email)\<close>: the row the
  lookup selects, or a new row, which the database refuses when it breaks a unique
  constraint or has no e-mail address.
\<close>

definition get_or_create :: "store \<Rightarrow> string option \<Rightarrow> string option \<Rightarrow> error + user \<times> store" where
  "get_or_create s un em =
     (case filter (\<lambda>u. username u = un \<and> Some (email u) = em) (users s) of
        [u] \<Rightarrow> Inr (u, s)
      | _ # _ # _ \<Rightarrow> Inl MultipleObjectsReturned
      | [] \<Rightarrow>
          (case em of
             None \<Rightarrow> Inl IntegrityError
           | Some m \<Rightarrow>
               (let u = (new_user s)\<lparr>username := un, email := m\<rparr>
                in if user_unique s u then Inr (u, s\<lparr>users := users s @ [u]\<rparr>)
                   else Inl IntegrityError)))"

definition register ::
  "env \<Rightarrow> store \<Rightarrow> user_data \<Rightarrow> (error + (string \<times> string) list response) \<times> store" where
  "register e s data =
     (let email' = d_email data;
          username' = d_username data;
          user = filter (\<lambda>u. Some (email u) = email') (users s)
      in if filter (\<lambda>u. username u = username' \<and> Some (email u) = email') (users s) \<noteq> []
         then (case user of
                 [] \<Rightarrow> (Inl DoesNotExist, s)
               | [u] \<Rightarrow>
                   (case send_confirm_mail e s u of
                      Inl err \<Rightarrow> (Inl err, s)
                    | Inr s' \<Rightarrow>
                        (Inr ([(''message'', ''confirmation code sent again'')], HTTP_200_OK),
                         s'))
               | _ # _ # _ \<Rightarrow> (Inl MultipleObjectsReturned, s))
         else (case RegisterDataSerializer_is_valid e s data of
                 Inl err \<Rightarrow> (Inl err, s)
               | Inr (un, em) \<Rightarrow>
                   (case get_or_create s un em of
                      Inl err \<Rightarrow> (Inl err, s)
                    | Inr (u, s') \<Rightarrow>
                        (case send_confirm_mail e s' u of
                           Inl err \<Rightarrow> (Inl err, s')
                         | Inr s'' \<Rightarrow>
                             (Inr (List.map_filter (\<lambda>(k, v). map_option (Pair k) v)
                                     [(''username'', un), (''email'', em)], HTTP_200_OK),
                              s'')))))"

record token_data =
  t_username :: "string option"
  t_confirmation_code :: "string option"

definition TokenSerializer_is_valid :: "token_data \<Rightarrow> error + (string option \<times> string option)" where
  "TokenSerializer_is_valid data =
     (let u = CharField True False [ProhibitNullCharactersValidator] (t_username data);
          c = CharField True False [ProhibitNullCharactersValidator] (t_confirmation_code data);
          errors = field_errors ''username'' u @ field_errors ''confirmation_code'' c
      in if errors = [] then Inr (field_value u, field_value c)
         else Inl (ValidationError errors))"

text \<open>
  \<open>get_jwt_token\<close>: a code that does not check returns
  \<open>Response(serializer.errors, status=HTTP_400_BAD_REQUEST)\<close>, and the errors of a
  serializer that validated are empty. \<open>validated_data['username']\<close> raises
  \<open>KeyError\<close> on a key that is not there.
\<close>

definition get_jwt_token ::
  "env \<Rightarrow> store \<Rightarrow> token_data \<Rightarrow> error + (string \<times> string) list response" where
  "get_jwt_token e s data =
     (case TokenSerializer_is_valid data of
        Inl err \<Rightarrow> Inl err
      | Inr (None, _) \<Rightarrow> Inl KeyError
      | Inr (Some _, None) \<Rightarrow> Inl KeyError
      | Inr (Some un, Some code) \<Rightarrow>
          (case get_object_or_404 (filter (\<lambda>u. username u = Some un) (users s)) of
             Inl err \<Rightarrow> Inl err
           | Inr user \<Rightarrow>
               if check_token e user code
               then Inr ([(''token'', AccessToken_for_user e user)], HTTP_200_OK)
               else Inr ([], HTTP_400_BAD_REQUEST)))"

text \<open>
  Deleting a user deletes, through \<open>on_delete=models.CASCADE\<close>, the reviews and
  comments the user wrote and the comments on those reviews.
\<close>

definition delete_user :: "store \<Rightarrow> nat \<Rightarrow> store" where
  "delete_user s uid =
     (let gone = map review_id (filter (\<lambda>r. author r = uid) (reviews s))
      in s\<lparr>users := filter (\<lambda>u. user_id u \<noteq> uid) (users s),
           reviews := filter (\<lambda>r. author r \<noteq> uid) (reviews s),
           comments := filter (\<lambda>c. comment_author c \<noteq> uid \<and> review c \<notin> set gone)
                         (comments s)\<rparr>)"

definition UserViewSet_create ::
  "env \<Rightarrow> store \<Rightarrow> user option \<Rightarrow> user_data \<Rightarrow> (error + user response) \<times> store" where
  "UserViewSet_create e s actor data =
     (if \<not> IsAdmin e ''POST'' actor then (Inl (permission_denied actor), s)
      else case UserSerializer_is_valid e s None False data of
             Inl err \<Rightarrow> (Inl err, s)
           | Inr validated_data \<Rightarrow>
               (let u = set_attrs (new_user s) validated_data
                in if user_unique s u
                   then (Inr (u, HTTP_201_CREATED), s\<lparr>users := users s @ [u]\<rparr>)
                   else (Inl IntegrityError, s)))"

text \<open>
  \<open>UserViewSet.update\<close>, which \<open>PUT\<close> calls and \<open>PATCH\<close> calls through
  \<open>partial_update\<close> with \<open>partial=True\<close>. The body is absent in the 405
  response.
\<close>

definition UserViewSet_update ::
  "env \<Rightarrow> store \<Rightarrow> user option \<Rightarrow> string \<Rightarrow> string \<Rightarrow> user_data
     \<Rightarrow> (error + user option response) \<times> store" where
  "UserViewSet_update e s actor method un data =
     (if \<not> IsAdmin e method actor then (Inl (permission_denied actor), s)
      else if method = ''PUT'' then (Inr (None, HTTP_405_METHOD_NOT_ALLOWED), s)
      else case get_object_or_404 (filter (\<lambda>u. username u = Some un) (users s)) of
             Inl err \<Rightarrow> (Inl err, s)
           | Inr instance \<Rightarrow>
               (case UserSerializer_is_valid e s (Some instance) (method = ''PATCH'') data of
                  Inl err \<Rightarrow> (Inl err, s)
                | Inr validated_data \<Rightarrow>
                    (case save_user s (set_attrs instance validated_data) of
                       Inl err \<Rightarrow> (Inl err, s)
                     | Inr s' \<Rightarrow>
                         (Inr (Some (set_attrs instance validated_data), HTTP_200_OK), s'))))"

definition UserViewSet_destroy ::
  "env \<Rightarrow> store \<Rightarrow> user option \<Rightarrow> string \<Rightarrow> (error + unit response) \<times> store" where
  "UserViewSet_destroy e s actor un =
     (if \<not> IsAdmin e ''DELETE'' actor then (Inl (permission_denied actor), s)
      else case get_object_or_404 (filter (\<lambda>u. username u = Some un) (users s)) of
             Inl err \<Rightarrow> (Inl err, s)
           | Inr instance \<Rightarrow> (Inr ((), HTTP_204_NO_CONTENT), delete_user s (user_id instance)))"

definition users_own_profile ::
  "env \<Rightarrow> store \<Rightarrow> user option \<Rightarrow> string \<Rightarrow> user_data
     \<Rightarrow> (error + user option response) \<times> store" where
  "users_own_profile e s actor method data =
     (case actor of
        None \<Rightarrow> (Inl (permission_denied actor), s)
      | Some user \<Rightarrow>
          if \<not> IsAuthenticated actor then (Inl (permission_denied actor), s)
          else if method = ''GET'' then (Inr (Some user, HTTP_200_OK), s)
          else if method = ''PATCH''
          then (case UserEditSerializer_is_valid e s (Some user) True data of
                  Inl err \<Rightarrow> (Inl err, s)
                | Inr validated_data \<Rightarrow>
                    (case save_user s (set_attrs user validated_data) of
                       Inl err \<Rightarrow> (Inl err, s)
                     | Inr s' \<Rightarrow> (Inr (Some (set_attrs user validated_data), HTTP_200_OK), s')))
          else (Inr (None, HTTP_400_BAD_REQUEST), s))"

section \<open>Catalog: deleting a category, a genre, a title\<close>

text \<open>
  \<open>Title.category\<close> is declared \<open>on_delete=models.SET_NULL\<close>: deleting a category
  sets the column to \<open>NULL\<close> in the titles that point to it. Both foreign keys of
  \<open>GenreTitle\<close>, and \<open>Review.title\<close>, \<open>Review.author\<close>, \<open>Comment.review\<close> and
  \<open>Comment.author\<close>, are declared \<open>on_delete=models.CASCADE\<close>: deleting a row
  deletes the rows that point to it.
\<close>

definition delete_category :: "store \<Rightarrow> nat \<Rightarrow> store" where
  "delete_category s cid =
     s\<lparr>categories := filter (\<lambda>c. category_id c \<noteq> cid) (categories s),
       titles := map (\<lambda>t. if category t = Some cid then t\<lparr>category := None\<rparr> else t)
                     (titles s)\<rparr>"

definition delete_genre :: "store \<Rightarrow> nat \<Rightarrow> store" where
  "delete_genre s gid =
     s\<lparr>genres := filter (\<lambda>g. genre_id g \<noteq> gid) (genres s),
       genre_titles := filter (\<lambda>gt. gt_genre gt \<noteq> Some gid) (genre_titles s)\<rparr>"

definition delete_title :: "store \<Rightarrow> nat \<Rightarrow> store" where
  "delete_title s tid =
     (let gone = map review_id (filter (\<lambda>r. title r = tid) (reviews s))
      in s\<lparr>titles := filter (\<lambda>t. title_id t \<noteq> tid) (titles s),
           genre_titles := filter (\<lambda>gt. gt_title gt \<noteq> Some tid) (genre_titles s),
           reviews := filter (\<lambda>r. title r \<noteq> tid) (reviews s),
           comments := filter (\<lambda>c. review c \<notin> set gone) (comments s)\<rparr>)"

definition delete_review :: "store \<Rightarrow> nat \<Rightarrow> store" where
  "delete_review s rid =
     s\<lparr>reviews := filter (\<lambda>r. review_id r \<noteq> rid) (reviews s),
       comments := filter (\<lambda>c. review c \<noteq> rid) (comments s)\<rparr>"

text \<open>
  \<open>destroy\<close> of \<open>CategoryViewSet\<close> and \<open>GenreViewSet\<close> (\<open>lookup_field = 'slug'\<close>)
  and of \<open>TitleViewSet\<close>: the permission class, the lookup, the deletion, status 204.
\<close>

definition CategoryViewSet_destroy ::
  "env \<Rightarrow> store \<Rightarrow> user option \<Rightarrow> string \<Rightarrow> (error + unit response) \<times> store" where
  "CategoryViewSet_destroy e s actor slug =
     (if \<not> IsAdminOrReadOnly e ''DELETE'' actor then (Inl (permission_denied actor), s)
      else case get_object_or_404 (filter (\<lambda>c. category_slug c = slug) (categories s)) of
             Inl err \<Rightarrow> (Inl err, s)
           | Inr instance \<Rightarrow>
               (Inr ((), HTTP_204_NO_CONTENT), delete_category s (category_id instance)))"

definition GenreViewSet_destroy ::
  "env \<Rightarrow> store \<Rightarrow> user option \<Rightarrow> string \<Rightarrow> (error + unit response) \<times> store" where
  "GenreViewSet_destroy e s actor slug =
     (if \<not> IsAdminOrReadOnly e ''DELETE'' actor then (Inl (permission_denied actor), s)
      else case get_object_or_404 (filter (\<lambda>g. genre_slug g = slug) (genres s)) of
             Inl err \<Rightarrow> (Inl err, s)
           | Inr instance \<Rightarrow>
               (Inr ((), HTTP_204_NO_CONTENT), delete_genre s (genre_id instance)))"

definition TitleViewSet_destroy ::
  "env \<Rightarrow> store \<Rightarrow> user option \<Rightarrow> nat \<Rightarrow> (error + unit response) \<times> store" where
  "TitleViewSet_destroy e s actor pk =
     (if \<not> IsAdminOrReadOnly e ''DELETE'' actor then (Inl (permission_denied actor), s)
      else case get_object_or_404 (filter (\<lambda>t. title_id t = pk) (titles s)) of
             Inl err \<Rightarrow> (Inl err, s)
           | Inr instance \<Rightarrow>
               (Inr ((), HTTP_204_NO_CONTENT), delete_title s (title_id instance)))"

section \<open>Reviews (ReviewSerializer, ReviewViewSet)\<close>

record review_data =
  d_text :: "string option"
  d_score :: "int option"

definition validate_score :: "int \<Rightarrow> string list + int" where
  "validate_score v =
     (if \<not> (1 \<le> v \<and> v \<le> 10) then Inl [''score must be an integer from 1 to 10'']
      else Inr v)"

text \<open>
  The fields of \<open>ReviewSerializer\<close> that take input. \<open>title\<close> and \<open>author\<close> are
  read-only, as are the primary key and \<open>pub_date\<close>. \<open>score\<close> comes from the model
  column, whose validators \<open>MinValueValidator(1)\<close> and \<open>MaxValueValidator(10)\<close>
  become the limits of the serializer field; \<open>validate_score\<close> runs after them.
\<close>

definition text_field :: "bool \<Rightarrow> string option \<Rightarrow> string list + string option" where
  "text_field partial data =
     CharField (\<not> partial) False [ProhibitNullCharactersValidator] data"

definition score_field :: "bool \<Rightarrow> int option \<Rightarrow> string list + int option" where
  "score_field partial data =
     validate_with validate_score
       (IntegerField (\<not> partial) [MaxValueValidator 10, MinValueValidator 1] data)"

text \<open>
  \<open>ReviewSerializer.is_valid\<close> for a request method, the requester and the
  \<open>title_id\<close> of the URL: the fields, then \<open>validate\<close>, which looks the title up
  and, for \<open>POST\<close> only, refuses when the requester has a review of the title.
  Filtering reviews by an anonymous requester raises \<open>TypeError\<close>.
\<close>

definition ReviewSerializer_is_valid ::
  "store \<Rightarrow> string \<Rightarrow> user option \<Rightarrow> nat \<Rightarrow> bool \<Rightarrow> review_data \<Rightarrow> error + review_data" where
  "ReviewSerializer_is_valid s method actor tid partial data =
     (let t = text_field partial (d_text data);
          c = score_field partial (d_score data);
          errors = field_errors ''text'' t @ field_errors ''score'' c
      in if errors \<noteq> [] then Inl (ValidationError errors)
         else case get_object_or_404 (filter (\<lambda>x. title_id x = tid) (titles s)) of
                Inl err \<Rightarrow> Inl err
              | Inr title' \<Rightarrow>
                  if method = ''POST''
                  then (case actor of
                          None \<Rightarrow> Inl TypeError
                        | Some author' \<Rightarrow>
                            if filter (\<lambda>r. author r = user_id author' \<and> title r = title_id title')
                                 (reviews s) \<noteq> []
                            then Inl (ValidationError
                                   [(''non_field_errors'', [''only one review per title''])])
                            else Inr \<lparr>d_text = field_value t, d_score = field_value c\<rparr>)
                  else Inr \<lparr>d_text = field_value t, d_score = field_value c\<rparr>)"

text \<open>
  The constraint \<open>unique_review\<close> of the review table
  (\<open>UniqueConstraint(fields=['title', 'author'])\<close>), checked by the database against
  the other rows when a row is inserted or updated.
\<close>

definition unique_review :: "store \<Rightarrow> review \<Rightarrow> bool" where
  "unique_review s r =
     ((title r, author r) \<notin>
        set (map (\<lambda>x. (title x, author x))
               (filter (\<lambda>x. review_id x \<noteq> review_id r) (reviews s))))"

definition insert_review :: "store \<Rightarrow> review \<Rightarrow> error + store" where
  "insert_review s r =
     (if unique_review s r then Inr (s\<lparr>reviews := reviews s @ [r]\<rparr>) else Inl IntegrityError)"

definition update_review :: "store \<Rightarrow> review \<Rightarrow> error + store" where
  "update_review s r =
     (if unique_review s r
      then Inr (s\<lparr>reviews := map (\<lambda>x. if review_id x = review_id r then r else x) (reviews s)\<rparr>)
      else Inl IntegrityError)"

text \<open>
  \<open>create\<close>: the permission class, the serializer, then \<open>perform_create\<close>, which
  looks the title up again and saves the review with the requester as its author. The
  publication date is the time of the request.
\<close>

definition ReviewViewSet_create ::
  "env \<Rightarrow> store \<Rightarrow> user option \<Rightarrow> nat \<Rightarrow> nat \<Rightarrow> review_data
     \<Rightarrow> (error + review response) \<times> store" where
  "ReviewViewSet_create e s actor tid now data =
     (if \<not> IsAdminModeratorOwnerOrReadOnly e ''POST'' actor
      then (Inl (permission_denied actor), s)
      else case ReviewSerializer_is_valid s ''POST'' actor tid False data of
             Inl err \<Rightarrow> (Inl err, s)
           | Inr validated_data \<Rightarrow>
               (case get_object_or_404 (filter (\<lambda>x. title_id x = tid) (titles s)) of
                  Inl err \<Rightarrow> (Inl err, s)
                | Inr title' \<Rightarrow>
                    (case (actor, d_text validated_data, d_score validated_data) of
                       (Some author', Some text', Some score') \<Rightarrow>
                         (let r = \<lparr>review_id = next_id (map review_id (reviews s)),
                                   title = title_id title', review_text = text',
                                   author = user_id author', score = score', pub_date = now\<rparr>
                          in case insert_review s r of
                               Inl err \<Rightarrow> (Inl err, s)
                             | Inr s' \<Rightarrow> (Inr (r, HTTP_201_CREATED), s'))
                     | (None, _, _) \<Rightarrow> (Inl ValueError, s)
                     | _ \<Rightarrow> (Inl IntegrityError, s))))"

text \<open>
  \<open>get_object\<close> of \<open>ReviewViewSet\<close>: \<open>get_queryset\<close> looks the title up and takes
  its reviews, the lookup by primary key follows, then the object-level permission.
\<close>

definition ReviewViewSet_get_object ::
  "env \<Rightarrow> store \<Rightarrow> user option \<Rightarrow> string \<Rightarrow> nat \<Rightarrow> nat \<Rightarrow> error + review" where
  "ReviewViewSet_get_object e s actor method tid pk =
     (case get_object_or_404 (filter (\<lambda>x. title_id x = tid) (titles s)) of
        Inl err \<Rightarrow> Inl err
      | Inr title' \<Rightarrow>
          (case get_object_or_404
                  (filter (\<lambda>r. review_id r = pk)
                     (filter (\<lambda>r. title r = title_id title') (reviews s))) of
             Inl err \<Rightarrow> Inl err
           | Inr obj \<Rightarrow>
               if \<not> IsAdminModeratorOwnerOrReadOnly_obj e method actor (author obj)
               then Inl (permission_denied actor)
               else Inr obj))"

text \<open>
  \<open>update\<close> (\<open>PUT\<close>) and \<open>partial_update\<close> (\<open>PATCH\<close>, \<open>partial=True\<close>), and
  \<open>destroy\<close>.
\<close>

definition ReviewViewSet_update ::
  "env \<Rightarrow> store \<Rightarrow> user option \<Rightarrow> bool \<Rightarrow> nat \<Rightarrow> nat \<Rightarrow> review_data
     \<Rightarrow> (error + review response) \<times> store" where
  "ReviewViewSet_update e s actor partial tid pk data =
     (let method = (if partial then ''PATCH'' else ''PUT'')
      in if \<not> IsAdminModeratorOwnerOrReadOnly e method actor
         then (Inl (permission_denied actor), s)
         else case ReviewViewSet_get_object e s actor method tid pk of
                Inl err \<Rightarrow> (Inl err, s)
              | Inr instance \<Rightarrow>
                  (case ReviewSerializer_is_valid s method actor tid partial data of
                     Inl err \<Rightarrow> (Inl err, s)
                   | Inr validated_data \<Rightarrow>
                       (let r = instance
                              \<lparr>review_text := (case d_text validated_data of
                                                 None \<Rightarrow> review_text instance | Some v \<Rightarrow> v),
                               score := (case d_score validated_data of
                                           None \<Rightarrow> score instance | Some v \<Rightarrow> v)\<rparr>
                        in case update_review s r of
                             Inl err \<Rightarrow> (Inl err, s)
                           | Inr s' \<Rightarrow> (Inr (r, HTTP_200_OK), s'))))"

definition ReviewViewSet_destroy ::
  "env \<Rightarrow> store \<Rightarrow> user option \<Rightarrow> nat \<Rightarrow> nat \<Rightarrow> (error + unit response) \<times> store" where
  "ReviewViewSet_destroy e s actor tid pk =
     (if \<not> IsAdminModeratorOwnerOrReadOnly e ''DELETE'' actor
      then (Inl (permission_denied actor), s)
      else case ReviewViewSet_get_object e s actor ''DELETE'' tid pk of
             Inl err \<Rightarrow> (Inl err, s)
           | Inr instance \<Rightarrow>
               (Inr ((), HTTP_204_NO_CONTENT), delete_review s (review_id instance)))"

section \<open>Integrity constraints of the database\<close>

text \<open>
  The primary key, \<open>unique=True\<close> on \<open>User.email\<close> and on
  \<open>User.username\<close> (\<open>NULL\<close> user names do not clash).
\<close>

definition unique_users :: "store \<Rightarrow> bool" where
  "unique_users s =
     (distinct (map user_id (users s)) \<and> distinct (map email (users s))
      \<and> distinct (List.map_filter username (users s)))"

text \<open>
  The primary key of the review table and its constraint \<open>unique_review\<close>: no two
  rows have the same title and author.
\<close>

definition unique_reviews :: "store \<Rightarrow> bool" where
  "unique_reviews s =
     (distinct (map review_id (reviews s))
      \<and> distinct (map (\<lambda>r. (title r, author r)) (reviews s)))"

section \<open>The API as a step function\<close>

text \<open>
  A request that writes, with the requester and the arguments the router takes from
  the URL, and the store its view leaves. The views modelled are the ones that write
  to the user table, delete from the catalog, or write to the review table; the other
  write views (creating and updating categories, genres, titles and comments) do not
  touch users or reviews.
\<close>

datatype request =
    Register user_data
  | UserCreate "user option" user_data
  | UserUpdate "user option" string string user_data
  | UserDestroy "user option" string
  | OwnProfile "user option" string user_data
  | CategoryDestroy "user option" string
  | GenreDestroy "user option" string
  | TitleDestroy "user option" nat
  | ReviewCreate "user option" nat nat review_data
  | ReviewUpdate "user option" bool nat nat review_data
  | ReviewDestroy "user option" nat nat

fun handle :: "env \<Rightarrow> store \<Rightarrow> request \<Rightarrow> store" where
  "handle e s (Register data) = snd (register e s data)"
| "handle e s (UserCreate actor data) = snd (UserViewSet_create e s actor data)"
| "handle e s (UserUpdate actor method un data) = snd (UserViewSet_update e s actor method un data)"
| "handle e s (UserDestroy actor un) = snd (UserViewSet_destroy e s actor un)"
| "handle e s (OwnProfile actor method data) = snd (users_own_profile e s actor method data)"
| "handle e s (CategoryDestroy actor slug) = snd (CategoryViewSet_destroy e s actor slug)"
| "handle e s (GenreDestroy actor slug) = snd (GenreViewSet_destroy e s actor slug)"
| "handle e s (TitleDestroy actor pk) = snd (TitleViewSet_destroy e s actor pk)"
| "handle e s (ReviewCreate actor tid now data) = snd (ReviewViewSet_create e s actor tid now data)"
| "handle e s (ReviewUpdate actor partial tid pk data) =
     snd (ReviewViewSet_update e s actor partial tid pk data)"
| "handle e s (ReviewDestroy actor tid pk) = snd (ReviewViewSet_destroy e s actor tid pk)"

section \<open>Sample data\<close>

text \<open>
  An instance of the collaborators and a few stores, on which the model is run on
  concrete requests. The sample permission classes decide as the decision table of
  the specification does.
\<close>

definition sample_env :: env where
  "sample_env = \<lparr>
     send_mail = (\<lambda>m. True),
     check_token = (\<lambda>u c. c = ''code-'' @ email u),
     make_token = (\<lambda>u. ''code-'' @ email u),
     AccessToken_for_user = (\<lambda>u. ''jwt-'' @ email u),
     EmailValidator = (\<lambda>v. CHR ''@'' \<in> set v),
     today_year = 2026,
     DOMAIN_NAME = ''yamdb.example'',
     IsAdmin = (\<lambda>m a. case a of None \<Rightarrow> False | Some u \<Rightarrow> is_admin u),
     IsAdminOrReadOnly = (\<lambda>m a. m = ''GET'' \<or> (case a of None \<Rightarrow> False | Some u \<Rightarrow> is_admin u)),
     IsAdminModeratorOwnerOrReadOnly = (\<lambda>m a. m = ''GET'' \<or> a \<noteq> None),
     IsAdminModeratorOwnerOrReadOnly_obj = (\<lambda>m a owner. m = ''GET'' \<or>
        (case a of None \<Rightarrow> False
         | Some u \<Rightarrow> is_admin u \<or> is_moderator u \<or> user_id u = owner)),
     TitleFilter = (\<lambda>ts. ts)\<rparr>"

text \<open>The same collaborators with a mail backend that delivers nothing.\<close>

definition no_mail_env :: env where
  "no_mail_env = sample_env\<lparr>send_mail := (\<lambda>m. False)\<rparr>"

definition sample_title :: title where
  "sample_title = \<lparr>title_id = 1, title_name = ''Solaris'', year = 1972,
     description = None, category = None\<rparr>"

definition sample_reviews :: "review list" where
  "sample_reviews =
     [\<lparr>review_id = 1, title = 1, review_text = ''good'', author = 1, score = 7, pub_date = 0\<rparr>,
      \<lparr>review_id = 2, title = 1, review_text = ''better'', author = 2, score = 8, pub_date = 1\<rparr>]"

definition rated_store :: store where
  "rated_store = empty_store\<lparr>titles := [sample_title], reviews := sample_reviews\<rparr>"

definition admin :: user where
  "admin = \<lparr>user_id = 1, username = Some ''root'', email = ''root@x.com'', role = ADMIN,
     bio = None, first_name = [], last_name = []\<rparr>"

definition alice :: user where
  "alice = \<lparr>user_id = 2, username = Some ''alice'', email = ''a@x.com'', role = USER,
     bio = None, first_name = [], last_name = []\<rparr>"

definition user_store :: store where
  "user_store = empty_store\<lparr>users := [admin, alice]\<rparr>"

definition no_data :: user_data where
  "no_data = \<lparr>d_username = None, d_email = None, d_role = None, d_bio = None,
     d_first_name = None, d_last_name = None\<rparr>"

definition token_request :: "string \<Rightarrow> string \<Rightarrow> token_data" where
  "token_request un code = \<lparr>t_username = Some un, t_confirmation_code = Some code\<rparr>"

definition register_request :: "string \<Rightarrow> string \<Rightarrow> user_data" where
  "register_request un em = no_data\<lparr>d_username := Some un, d_email := Some em\<rparr>"

definition me_user :: user where
  "me_user = \<lparr>user_id = 3, username = Some ''me'', email = ''me@x.com'', role = USER,
     bio = None, first_name = [], last_name = []\<rparr>"

definition me_store :: store where
  "me_store = user_store\<lparr>users := [admin, alice, me_user]\<rparr>"

definition promote_request :: user_data where
  "promote_request = no_data\<lparr>d_role := Some ''admin'', d_bio := Some ''hi''\<rparr>"

definition films :: category where
  "films = \<lparr>category_id = 1, category_name = ''Films'', category_slug = ''films''\<rparr>"

definition drama :: genre where
  "drama = \<lparr>genre_id = 1, genre_name = ''Drama'', genre_slug = ''drama''\<rparr>"

definition film_title :: title where
  "film_title = \<lparr>title_id = 1, title_name = ''Solaris'', year = 1972,
     description = None, category = Some 1\<rparr>"

definition catalog_store :: store where
  "catalog_store = user_store\<lparr>categories := [films], genres := [drama],
     titles := [film_title],
     genre_titles := [\<lparr>genre_title_id = 1, gt_title = Some 1, gt_genre = Some 1\<rparr>]\<rparr>"

definition alice_review :: review where
  "alice_review = \<lparr>review_id = 1, title = 1, review_text = ''good'', author = 2, score = 7,
     pub_date = 0\<rparr>"

definition review_store :: store where
  "review_store = catalog_store\<lparr>reviews := [alice_review]\<rparr>"

definition review_request :: "string \<Rightarrow> int \<Rightarrow> review_data" where
  "review_request text' score' = \<lparr>d_text = Some text', d_score = Some score'\<rparr>"

section \<open>The rating of a title\<close>

lemma py_int_div:
  fixes a :: int and n :: nat
  assumes "0 \<le> a"
  shows "py_int (of_int a / of_int (int n)) = a div int n"
proof -
  have "(0::rat) \<le> of_int a / of_int (int n)" using assms by simp
  then show ?thesis unfolding py_int_def by (simp only: if_True floor_divide_of_int_eq)
qed

lemma serializer_rating:
  assumes "\<forall>r\<in>set (reviews s). 0 \<le> score r"
  shows "repr_rating (ReadOnlyTitleSerializer s t) =
     (let xs = map score (filter (\<lambda>r. title r = title_id t) (reviews s))
      in if xs = [] then None else Some (sum_list xs div int (length xs)))"
proof -
  let ?xs = "map score (filter (\<lambda>r. title r = title_id t) (reviews s))"
  have "\<forall>x\<in>set ?xs. 0 \<le> x" using assms by auto
  then have "0 \<le> sum_list ?xs" by (auto intro!: sum_list_nonneg)
  then show ?thesis
    unfolding ReadOnlyTitleSerializer_def IntegerField_to_representation_def annotate_rating_def Avg_def Let_def
    by (simp only: title_repr.select_convs option.map if_distrib[of "map_option py_int"] py_int_div)
qed

lemma get_object_filter:
  assumes "get_object_or_404 (filter P xs) = Inr x"
  shows "P x \<and> x \<in> set xs"
proof -
  from assms have "filter P xs = [x]"
    by (auto simp: get_object_or_404_def split: list.splits)
  then have "x \<in> set (filter P xs)" by simp
  then show ?thesis by simp
qed

text \<open>
  Claim C2, as amended. For every title, the rating that \<open>retrieve\<close> and
  \<open>list\<close> return is the arithmetic mean of the scores of the title's reviews with
  the fractional part dropped (the serializer field is an \<open>IntegerField\<close>), and it
  is absent, not zero, when the title has no review. Scores are not negative: the
  column is a \<open>PositiveSmallIntegerField\<close>.
\<close>

theorem rating_truncated_mean:
  assumes "\<forall>r\<in>set (reviews s). 0 \<le> score r"
  shows "(TitleViewSet_retrieve e s actor pk = Inr (r, st) \<longrightarrow>
            repr_rating r =
              (let xs = map score (filter (\<lambda>r. title r = pk) (reviews s))
               in if xs = [] then None else Some (sum_list xs div int (length xs))))
       \<and> (TitleViewSet_list e s actor = Inr (rs, st) \<longrightarrow>
            map repr_rating rs =
              map (\<lambda>t. let xs = map score (filter (\<lambda>r. title r = title_id t) (reviews s))
                       in if xs = [] then None else Some (sum_list xs div int (length xs)))
                  (TitleFilter e (titles s)))"
proof (intro conjI impI)
  assume "TitleViewSet_retrieve e s actor pk = Inr (r, st)"
  then obtain t where t: "get_object_or_404 (filter (\<lambda>t. title_id t = pk) (titles s)) = Inr t"
    and r: "r = ReadOnlyTitleSerializer s t"
    by (auto simp: TitleViewSet_retrieve_def split: if_splits sum.splits)
  from get_object_filter[OF t] have "title_id t = pk" by simp
  with r serializer_rating[OF assms, of t] show "repr_rating r =
      (let xs = map score (filter (\<lambda>r. title r = pk) (reviews s))
       in if xs = [] then None else Some (sum_list xs div int (length xs)))" by simp
next
  assume "TitleViewSet_list e s actor = Inr (rs, st)"
  then have "rs = map (ReadOnlyTitleSerializer s) (TitleFilter e (titles s))"
    by (auto simp: TitleViewSet_list_def split: if_splits)
  then show "map repr_rating rs =
      map (\<lambda>t. let xs = map score (filter (\<lambda>r. title r = title_id t) (reviews s))
               in if xs = [] then None else Some (sum_list xs div int (length xs)))
          (TitleFilter e (titles s))"
    by (simp add: serializer_rating[OF assms])
qed

lemma retrieve_rated: "TitleViewSet_retrieve sample_env rated_store None 1 =
    Inr (ReadOnlyTitleSerializer rated_store sample_title, 200)"
  by (simp add: TitleViewSet_retrieve_def get_object_or_404_def sample_env_def rated_store_def
      sample_title_def empty_store_def HTTP_200_OK_def)

text \<open>
  The theorem at a title with the scores 7 and 8: the rating read is 7. A title that
  does not exist is not found.
\<close>

theorem rating_truncated_mean_witness:
  "list_all (\<lambda>r. 0 \<le> score r) (reviews rated_store)
   \<and> TitleViewSet_retrieve sample_env rated_store None 1 =
       Inr (ReadOnlyTitleSerializer rated_store sample_title, 200)
   \<and> repr_rating (ReadOnlyTitleSerializer rated_store sample_title) = Some 7
   \<and> TitleViewSet_retrieve sample_env empty_store None 1 = Inl Http404"
proof -
  have h: "\<forall>r\<in>set (reviews rated_store). 0 \<le> score r"
    by (simp add: rated_store_def sample_reviews_def empty_store_def)
  have "repr_rating (ReadOnlyTitleSerializer rated_store sample_title) = Some 7"
    using rating_truncated_mean[OF h, of sample_env None 1 "ReadOnlyTitleSerializer rated_store sample_title" 200] retrieve_rated
    by (simp add: rated_store_def sample_reviews_def empty_store_def)
  moreover have "TitleViewSet_retrieve sample_env empty_store None 1 = Inl Http404"
    by (simp add: TitleViewSet_retrieve_def get_object_or_404_def sample_env_def empty_store_def)
  ultimately show ?thesis using h retrieve_rated by (simp add: list_all_iff)
qed

text \<open>
  Claim C2 as it is written fails at the same title: the exact mean of 7 and 8 is
  15/2, the rating read is the integer 7.
\<close>

theorem rating_exact_mean_counterexample:
  "TitleViewSet_retrieve sample_env rated_store None 1 =
       Inr (ReadOnlyTitleSerializer rated_store sample_title, 200)
   \<and> annotate_rating rated_store sample_title = Some (15 / 2)
   \<and> repr_rating (ReadOnlyTitleSerializer rated_store sample_title) = Some 7
   \<and> map_option rat_of_int (repr_rating (ReadOnlyTitleSerializer rated_store sample_title))
       \<noteq> annotate_rating rated_store sample_title"
proof -
  have a: "annotate_rating rated_store sample_title = Some (15 / 2)"
    by (simp add: annotate_rating_def Avg_def rated_store_def sample_reviews_def sample_title_def empty_store_def)
  have "py_int (rat_of_int 15 / rat_of_int (int 2)) = 15 div int 2" by (rule py_int_div) simp
  then have p: "py_int (15 / 2) = 7" by simp
  have b: "repr_rating (ReadOnlyTitleSerializer rated_store sample_title) = Some 7"
    by (simp add: ReadOnlyTitleSerializer_def IntegerField_to_representation_def a p)
  show ?thesis using a b retrieve_rated by simp
qed

lemma filter_distinct_key:
  "distinct (map f xs) \<Longrightarrow> x \<in> set xs \<Longrightarrow> filter (\<lambda>y. f y = f x) xs = [x]"
proof (induction xs)
  case Nil then show ?case by simp
next
  case (Cons a xs)
  show ?case
  proof (cases "a = x")
    case True
    with Cons.prems have "f x \<notin> f ` set xs" by simp
    then have "filter (\<lambda>y. f y = f x) xs = []"
      by (metis (mono_tags, lifting) filter_False imageI)
    with True show ?thesis by simp
  next
    case False
    with Cons.prems have "x \<in> set xs" "f a \<noteq> f x" by auto
    with Cons show ?thesis by simp
  qed
qed

lemma set_map_filter_username:
  "Some un \<in> username ` set xs \<longleftrightarrow> un \<in> set (List.map_filter username xs)"
  by (induction xs) (auto split: option.splits)

lemma filter_username_unique:
  "distinct (List.map_filter username xs) \<Longrightarrow> x \<in> set xs \<Longrightarrow> username x = Some un
     \<Longrightarrow> filter (\<lambda>y. username y = Some un) xs = [x]"
proof (induction xs)
  case Nil then show ?case by simp
next
  case (Cons a xs)
  show ?case
  proof (cases "a = x")
    case True
    with Cons.prems have "un \<notin> set (List.map_filter username xs)"
      by simp
    then have "Some un \<notin> username ` set xs" by (simp add: set_map_filter_username)
    then have "filter (\<lambda>y. username y = Some un) xs = []" by (force simp: filter_empty_conv)
    with True Cons.prems show ?thesis by simp
  next
    case False
    with Cons.prems have x: "x \<in> set xs" by simp
    then have "un \<in> set (List.map_filter username xs)"
      using Cons.prems(3) set_map_filter_username[of un xs] by force
    with Cons.prems(1) have "username a \<noteq> Some un"
      by (auto split: option.splits)
    moreover from Cons.prems(1) have "distinct (List.map_filter username xs)"
      by (auto split: option.splits)
    ultimately show ?thesis using Cons.IH x Cons.prems(3) by simp
  qed
qed

section \<open>Registration and the confirmation code\<close>

lemma register_existing_pair:
  assumes uniq: "unique_users s"
    and u: "u \<in> set (users s)"
    and un: "d_username data = username u"
    and em: "d_email data = Some (email u)"
  shows "register e s data =
           (if send_mail e (confirmation_mail e u)
            then (Inr ([(''message'', ''confirmation code sent again'')], HTTP_200_OK),
                  s\<lparr>outbox := outbox s @ [confirmation_mail e u]\<rparr>)
            else (Inl SMTPException, s))"
proof -
  from uniq have "distinct (map email (users s))" by (simp add: unique_users_def)
  from filter_distinct_key[OF this u]
  have f: "filter (\<lambda>x. Some (email x) = Some (email u)) (users s) = [u]" by simp
  from u un em have "u \<in> set (filter (\<lambda>x. username x = d_username data \<and> Some (email x) = d_email data) (users s))"
    by simp
  then have ne: "filter (\<lambda>x. username x = d_username data \<and> Some (email x) = d_email data) (users s) \<noteq> []"
    by (metis empty_iff list.set(1))
  show ?thesis
    unfolding register_def Let_def using ne f em by (simp add: send_confirm_mail_def)
qed

text \<open>
  Claim C3, as amended. When a user with exactly the requested user name and e-mail
  address exists, \<open>register\<close> leaves the user table as it was and hands
  \<open>send_mail\<close> one more confirmation code for that user's address. When the mail
  is delivered the request succeeds with status 200; when \<open>send_mail\<close> raises, the
  request fails with that error, which nothing in the view catches. The e-mail column
  is unique, as the model declares.
\<close>

theorem register_resend:
  assumes uniq: "unique_users s"
    and u: "u \<in> set (users s)"
    and un: "d_username data = username u"
    and em: "d_email data = Some (email u)"
  shows "register e s data =
           (if send_mail e (confirmation_mail e u)
            then (Inr ([(''message'', ''confirmation code sent again'')], HTTP_200_OK),
                  s\<lparr>outbox := outbox s @ [confirmation_mail e u]\<rparr>)
            else (Inl SMTPException, s))
       \<and> users (snd (register e s data)) = users s
       \<and> confirmation_mail e u =
           \<lparr>subject = ''YaMDb registration'',
            message = ''confirmation code: '' @ make_token e u,
            from_email = DOMAIN_NAME e, recipient_list = [email u]\<rparr>"
  unfolding register_existing_pair[OF assms]
  by (simp add: confirmation_mail_def Let_def)

lemma token_fields:
  assumes "TokenSerializer_is_valid data = Inr (Some un, Some code)"
  shows "get_jwt_token e s data =
     (case get_object_or_404 (filter (\<lambda>u. username u = Some un) (users s)) of
        Inl err \<Rightarrow> Inl err
      | Inr user \<Rightarrow>
          if check_token e user code
          then Inr ([(''token'', AccessToken_for_user e user)], HTTP_200_OK)
          else Inr ([], HTTP_400_BAD_REQUEST))"
  using assms by (simp add: get_jwt_token_def)

lemma exchange_code_valid:
  assumes uniq: "unique_users s"
    and valid: "TokenSerializer_is_valid data = Inr (Some un, Some code)"
  shows "(Some un \<notin> username ` set (users s) \<longrightarrow> get_jwt_token e s data = Inl Http404)
       \<and> (\<forall>u\<in>set (users s). username u = Some un \<longrightarrow>
            get_jwt_token e s data =
              (if check_token e u code
               then Inr ([(''token'', AccessToken_for_user e u)], HTTP_200_OK)
               else Inr ([], HTTP_400_BAD_REQUEST)))"
proof (intro conjI impI ballI)
  assume "Some un \<notin> username ` set (users s)"
  then have "filter (\<lambda>u. username u = Some un) (users s) = []"
    by (force simp: filter_empty_conv)
  then show "get_jwt_token e s data = Inl Http404"
    by (simp add: token_fields[OF valid] get_object_or_404_def)
next
  fix u assume u: "u \<in> set (users s)" "username u = Some un"
  from uniq have "distinct (List.map_filter username (users s))" by (simp add: unique_users_def)
  from filter_username_unique[OF this u]
  show "get_jwt_token e s data =
      (if check_token e u code
       then Inr ([(''token'', AccessToken_for_user e u)], HTTP_200_OK)
       else Inr ([], HTTP_400_BAD_REQUEST))"
    by (simp add: token_fields[OF valid] get_object_or_404_def)
qed

lemma token_serializer_valid:
  assumes "t_username data = Some un" "t_confirmation_code data = Some code"
    and "strip un \<noteq> []" "strip code \<noteq> []"
    and "CHR 0x00 \<notin> set (strip un)" "CHR 0x00 \<notin> set (strip code)"
  shows "TokenSerializer_is_valid data = Inr (Some (strip un), Some (strip code))"
  using assms
  by (simp add: TokenSerializer_is_valid_def CharField_def run_validators_def
      ProhibitNullCharactersValidator_def field_errors_def field_value_def)

lemma token_serializer_blank:
  assumes "t_username data = Some un" "strip un = []"
  shows "\<exists>errs. TokenSerializer_is_valid data = Inl (ValidationError errs)"
  using assms
  by (simp add: TokenSerializer_is_valid_def CharField_def field_errors_def Let_def)

lemma strip_alice: "strip ''alice'' = ''alice''" "strip ''code-a@x.com'' = ''code-a@x.com''"
   "strip ''wrong'' = ''wrong''" "strip ''bob'' = ''bob''" "strip '' '' = []"
  by (simp_all add: strip_def py_isspace_def)

lemma unique_user_store: "unique_users user_store"
  by (simp add: unique_users_def user_store_def empty_store_def admin_def alice_def)

lemma valid_alice: "TokenSerializer_is_valid (token_request ''alice'' ''code-a@x.com'') = Inr (Some ''alice'', Some ''code-a@x.com'')"
  using token_serializer_valid[of "token_request ''alice'' ''code-a@x.com''" "''alice''" "''code-a@x.com''"]
  by (simp add: token_request_def strip_alice)

lemma valid_wrong: "TokenSerializer_is_valid (token_request ''alice'' ''wrong'') = Inr (Some ''alice'', Some ''wrong'')"
  using token_serializer_valid[of "token_request ''alice'' ''wrong''" "''alice''" "''wrong''"]
  by (simp add: token_request_def strip_alice)

lemma valid_bob: "TokenSerializer_is_valid (token_request ''bob'' ''wrong'') = Inr (Some ''bob'', Some ''wrong'')"
  using token_serializer_valid[of "token_request ''bob'' ''wrong''" "''bob''" "''wrong''"]
  by (simp add: token_request_def strip_alice)

lemma char_field_refused:
  assumes "\<forall>v. d = Some v \<longrightarrow> strip v = [] \<or> CHR 0x00 \<in> set (strip v)"
  shows "\<exists>es. CharField True False [ProhibitNullCharactersValidator] d = Inl es"
  using assms
  by (cases d) (auto simp: CharField_def run_validators_def ProhibitNullCharactersValidator_def)

lemma token_serializer_refused:
  assumes "(\<forall>v. t_username data = Some v \<longrightarrow> strip v = [] \<or> CHR 0x00 \<in> set (strip v))
         \<or> (\<forall>v. t_confirmation_code data = Some v \<longrightarrow> strip v = [] \<or> CHR 0x00 \<in> set (strip v))"
  shows "\<exists>errs. errs \<noteq> [] \<and> TokenSerializer_is_valid data = Inl (ValidationError errs)"
proof -
  have "(\<exists>es. CharField True False [ProhibitNullCharactersValidator] (t_username data) = Inl es)
      \<or> (\<exists>es. CharField True False [ProhibitNullCharactersValidator] (t_confirmation_code data) = Inl es)"
    using assms char_field_refused by blast
  then have "field_errors ''username''
        (CharField True False [ProhibitNullCharactersValidator] (t_username data))
      @ field_errors ''confirmation_code''
        (CharField True False [ProhibitNullCharactersValidator] (t_confirmation_code data)) \<noteq> []"
    by (auto simp: field_errors_def)
  then show ?thesis by (simp add: TokenSerializer_is_valid_def Let_def)
qed

text \<open>
  Claim C4, as amended. A request with a field that is missing, blank or holds a null
  character fails with the \<open>ValidationError\<close> of \<open>TokenSerializer\<close>, before any
  lookup. Otherwise the fields validate to their values stripped of surrounding
  whitespace, and: with no user of that name the view raises \<open>Http404\<close>; with such
  a user and a code that does not check it returns a 400 response with an empty body;
  with a code that checks it returns status 200 and the token of that user. The user
  name column is unique, as the model declares.
\<close>

theorem exchange_code_outcomes:
  assumes uniq: "unique_users s"
  shows "((\<forall>v. t_username data = Some v \<longrightarrow> strip v = [] \<or> CHR 0x00 \<in> set (strip v))
          \<or> (\<forall>v. t_confirmation_code data = Some v
                 \<longrightarrow> strip v = [] \<or> CHR 0x00 \<in> set (strip v))
          \<longrightarrow> (\<exists>errs. errs \<noteq> [] \<and> get_jwt_token e s data = Inl (ValidationError errs)))
       \<and> (t_username data = Some u0 \<and> t_confirmation_code data = Some c0
          \<and> strip u0 \<noteq> [] \<and> CHR 0x00 \<notin> set (strip u0)
          \<and> strip c0 \<noteq> [] \<and> CHR 0x00 \<notin> set (strip c0)
          \<longrightarrow> TokenSerializer_is_valid data = Inr (Some (strip u0), Some (strip c0))
            \<and> (Some (strip u0) \<notin> username ` set (users s)
                 \<longrightarrow> get_jwt_token e s data = Inl Http404)
            \<and> (\<forall>u\<in>set (users s). username u = Some (strip u0) \<longrightarrow>
                  get_jwt_token e s data =
                    (if check_token e u (strip c0)
                     then Inr ([(''token'', AccessToken_for_user e u)], HTTP_200_OK)
                     else Inr ([], HTTP_400_BAD_REQUEST))))"
proof (intro conjI impI)
  assume "(\<forall>v. t_username data = Some v \<longrightarrow> strip v = [] \<or> CHR 0x00 \<in> set (strip v))
          \<or> (\<forall>v. t_confirmation_code data = Some v
                 \<longrightarrow> strip v = [] \<or> CHR 0x00 \<in> set (strip v))"
  from token_serializer_refused[OF this] obtain errs where
    "errs \<noteq> []" "TokenSerializer_is_valid data = Inl (ValidationError errs)" by blast
  then show "\<exists>errs. errs \<noteq> [] \<and> get_jwt_token e s data = Inl (ValidationError errs)"
    by (simp add: get_jwt_token_def)
next
  assume a: "t_username data = Some u0 \<and> t_confirmation_code data = Some c0
          \<and> strip u0 \<noteq> [] \<and> CHR 0x00 \<notin> set (strip u0)
          \<and> strip c0 \<noteq> [] \<and> CHR 0x00 \<notin> set (strip c0)"
  then have v: "TokenSerializer_is_valid data = Inr (Some (strip u0), Some (strip c0))"
    by (simp add: token_serializer_valid)
  note o = exchange_code_valid[OF uniq v, of e]
  show "TokenSerializer_is_valid data = Inr (Some (strip u0), Some (strip c0))" by (rule v)
  show "Some (strip u0) \<notin> username ` set (users s) \<Longrightarrow> get_jwt_token e s data = Inl Http404"
    using o by blast
  show "\<forall>u\<in>set (users s). username u = Some (strip u0) \<longrightarrow>
                  get_jwt_token e s data =
                    (if check_token e u (strip c0)
                     then Inr ([(''token'', AccessToken_for_user e u)], HTTP_200_OK)
                     else Inr ([], HTTP_400_BAD_REQUEST))"
    using o by blast
qed

lemma token_request_ok:
  "t_username (token_request ''alice'' ''code-a@x.com'') = Some ''alice''
   \<and> t_confirmation_code (token_request ''alice'' ''code-a@x.com'') = Some ''code-a@x.com''
   \<and> strip ''alice'' \<noteq> [] \<and> CHR 0x00 \<notin> set (strip ''alice'')
   \<and> strip ''code-a@x.com'' \<noteq> [] \<and> CHR 0x00 \<notin> set (strip ''code-a@x.com'')"
  "t_username (token_request ''alice'' ''wrong'') = Some ''alice''
   \<and> t_confirmation_code (token_request ''alice'' ''wrong'') = Some ''wrong''
   \<and> strip ''alice'' \<noteq> [] \<and> CHR 0x00 \<notin> set (strip ''alice'')
   \<and> strip ''wrong'' \<noteq> [] \<and> CHR 0x00 \<notin> set (strip ''wrong'')"
  "t_username (token_request ''bob'' ''wrong'') = Some ''bob''
   \<and> t_confirmation_code (token_request ''bob'' ''wrong'') = Some ''wrong''
   \<and> strip ''bob'' \<noteq> [] \<and> CHR 0x00 \<notin> set (strip ''bob'')
   \<and> strip ''wrong'' \<noteq> [] \<and> CHR 0x00 \<notin> set (strip ''wrong'')"
  by (simp_all add: token_request_def strip_alice)

text \<open>
  The three outcomes on a store with the user alice, and the two refusals of a blank
  user name and of a missing code.
\<close>

theorem exchange_code_outcomes_witness:
  "unique_users user_store
   \<and> get_jwt_token sample_env user_store (token_request ''alice'' ''code-a@x.com'')
       = Inr ([(''token'', ''jwt-a@x.com'')], 200)
   \<and> get_jwt_token sample_env user_store (token_request ''alice'' ''wrong'') = Inr ([], 400)
   \<and> get_jwt_token sample_env user_store (token_request ''bob'' ''wrong'') = Inl Http404
   \<and> (\<exists>errs. errs \<noteq> [] \<and> get_jwt_token sample_env user_store (token_request '' '' ''wrong'')
                = Inl (ValidationError errs))
   \<and> (\<exists>errs. errs \<noteq> [] \<and> get_jwt_token sample_env user_store
                  \<lparr>t_username = Some ''alice'', t_confirmation_code = None\<rparr>
                = Inl (ValidationError errs))"
proof -
  have a: "alice \<in> set (users user_store)" "username alice = Some (strip ''alice'')"
    by (simp_all add: user_store_def alice_def strip_alice)
  have b: "Some (strip ''bob'') \<notin> username ` set (users user_store)"
    by (simp add: user_store_def alice_def admin_def empty_store_def strip_alice)
  have 1: "get_jwt_token sample_env user_store (token_request ''alice'' ''code-a@x.com'')
       = Inr ([(''token'', ''jwt-a@x.com'')], 200)"
    using exchange_code_outcomes[OF unique_user_store, where e = sample_env
        and data = "token_request ''alice'' ''code-a@x.com''" and ?u0.0 = "''alice''"
        and ?c0.0 = "''code-a@x.com''",
        THEN conjunct2, rule_format, OF token_request_ok(1),
        THEN conjunct2, THEN conjunct2, rule_format, OF a]
    by (simp add: sample_env_def alice_def HTTP_200_OK_def strip_alice)
  have 2: "get_jwt_token sample_env user_store (token_request ''alice'' ''wrong'') = Inr ([], 400)"
    using exchange_code_outcomes[OF unique_user_store, where e = sample_env
        and data = "token_request ''alice'' ''wrong''" and ?u0.0 = "''alice''"
        and ?c0.0 = "''wrong''",
        THEN conjunct2, rule_format, OF token_request_ok(2),
        THEN conjunct2, THEN conjunct2, rule_format, OF a]
    by (simp add: sample_env_def alice_def HTTP_400_BAD_REQUEST_def strip_alice)
  have 3: "get_jwt_token sample_env user_store (token_request ''bob'' ''wrong'') = Inl Http404"
    using exchange_code_outcomes[OF unique_user_store, where e = sample_env
        and data = "token_request ''bob'' ''wrong''" and ?u0.0 = "''bob''"
        and ?c0.0 = "''wrong''",
        THEN conjunct2, rule_format, OF token_request_ok(3),
        THEN conjunct2, THEN conjunct1, rule_format, OF b] .
  have i4: "(\<forall>v. t_username (token_request '' '' ''wrong'') = Some v
               \<longrightarrow> strip v = [] \<or> CHR 0x00 \<in> set (strip v))
          \<or> (\<forall>v. t_confirmation_code (token_request '' '' ''wrong'') = Some v
                 \<longrightarrow> strip v = [] \<or> CHR 0x00 \<in> set (strip v))"
    by (simp add: token_request_def strip_alice)
  have 4: "\<exists>errs. errs \<noteq> [] \<and> get_jwt_token sample_env user_store (token_request '' '' ''wrong'')
                = Inl (ValidationError errs)"
    using exchange_code_outcomes[OF unique_user_store, where e = sample_env
        and data = "token_request '' '' ''wrong''", THEN conjunct1, rule_format, OF i4] .
  have i5: "(\<forall>v. t_username \<lparr>t_username = Some ''alice'', t_confirmation_code = None\<rparr> = Some v
               \<longrightarrow> strip v = [] \<or> CHR 0x00 \<in> set (strip v))
          \<or> (\<forall>v. t_confirmation_code \<lparr>t_username = Some ''alice'', t_confirmation_code = None\<rparr>
                   = Some v \<longrightarrow> strip v = [] \<or> CHR 0x00 \<in> set (strip v))"
    by simp
  have 5: "\<exists>errs. errs \<noteq> [] \<and> get_jwt_token sample_env user_store
                  \<lparr>t_username = Some ''alice'', t_confirmation_code = None\<rparr>
                = Inl (ValidationError errs)"
    using exchange_code_outcomes[OF unique_user_store, where e = sample_env
        and data = "\<lparr>t_username = Some ''alice'', t_confirmation_code = None\<rparr>",
        THEN conjunct1, rule_format, OF i5] .
  from unique_user_store 1 2 3 4 5 show ?thesis by (simp only: simp_thms)
qed

text \<open>
  Claim C4 as it is written fails twice: a wrong code for alice is answered by a 400
  response, not by an authentication error, and a blank user name, which no user has,
  is refused by the serializer before any lookup, not reported as not found.
\<close>

theorem exchange_code_counterexample:
  "get_jwt_token sample_env user_store (token_request ''alice'' ''wrong'') = Inr ([], 400)
   \<and> get_jwt_token sample_env user_store (token_request ''alice'' ''wrong'') \<noteq> Inl AuthenticationError
   \<and> Some '' '' \<notin> username ` set (users user_store)
   \<and> get_jwt_token sample_env user_store (token_request '' '' ''wrong'')
       = Inl (ValidationError [(''username'', [''blank''])])
   \<and> get_jwt_token sample_env user_store (token_request '' '' ''wrong'') \<noteq> Inl Http404"
proof -
  have a: "alice \<in> set (users user_store)" "username alice = Some ''alice''"
    by (simp_all add: user_store_def alice_def)
  have f: "filter (\<lambda>u. username u = Some ''alice'') (users user_store) = [alice]"
    by (simp add: user_store_def alice_def admin_def empty_store_def)
  have 2: "get_jwt_token sample_env user_store (token_request ''alice'' ''wrong'') = Inr ([], 400)"
    by (simp add: token_fields[OF valid_wrong] f get_object_or_404_def sample_env_def alice_def HTTP_400_BAD_REQUEST_def)
  have 3: "get_jwt_token sample_env user_store (token_request '' '' ''wrong'')
       = Inl (ValidationError [(''username'', [''blank''])])"
    by (simp add: get_jwt_token_def TokenSerializer_is_valid_def token_request_def CharField_def
        strip_alice run_validators_def ProhibitNullCharactersValidator_def field_errors_def)
  have 4: "Some '' '' \<notin> username ` set (users user_store)"
    by (simp add: user_store_def alice_def admin_def empty_store_def)
  from 2 3 4 show ?thesis by simp
qed

lemma sample_mail: "send_mail sample_env m" "\<not> send_mail no_mail_env m"
  by (simp_all add: sample_env_def no_mail_env_def)

text \<open>Registering alice again, with the address she has, when mail is delivered.\<close>

theorem register_resend_witness:
  "unique_users user_store
   \<and> register sample_env user_store (register_request ''alice'' ''a@x.com'') =
       (Inr ([(''message'', ''confirmation code sent again'')], 200),
        user_store\<lparr>outbox := [confirmation_mail sample_env alice]\<rparr>)
   \<and> users (snd (register sample_env user_store (register_request ''alice'' ''a@x.com'')))
       = [admin, alice]
   \<and> recipient_list (confirmation_mail sample_env alice) = [''a@x.com'']"
proof -
  have a: "alice \<in> set (users user_store)"
    "d_username (register_request ''alice'' ''a@x.com'') = username alice"
    "d_email (register_request ''alice'' ''a@x.com'') = Some (email alice)"
    by (simp_all add: user_store_def alice_def register_request_def no_data_def)
  note r = register_resend[OF unique_user_store a, of sample_env]
  have 1: "register sample_env user_store (register_request ''alice'' ''a@x.com'') =
       (Inr ([(''message'', ''confirmation code sent again'')], 200),
        user_store\<lparr>outbox := [confirmation_mail sample_env alice]\<rparr>)"
    using r[THEN conjunct1] by (simp add: sample_mail HTTP_200_OK_def user_store_def empty_store_def)
  have 2: "users (snd (register sample_env user_store (register_request ''alice'' ''a@x.com'')))
       = [admin, alice]"
    using r[THEN conjunct2, THEN conjunct1] by (simp add: user_store_def empty_store_def)
  have 3: "recipient_list (confirmation_mail sample_env alice) = [''a@x.com'']"
    unfolding r[THEN conjunct2, THEN conjunct2] by (simp add: alice_def)
  from unique_user_store 1 2 3 show ?thesis by (simp only: simp_thms)
qed

text \<open>
  Claim C3 as it is written fails when the mail backend does not deliver: registering
  alice again raises the error of \<open>send_mail\<close>.
\<close>

theorem register_resend_counterexample:
  "register no_mail_env user_store (register_request ''alice'' ''a@x.com'')
     = (Inl SMTPException, user_store)"
proof -
  have a: "alice \<in> set (users user_store)"
    "d_username (register_request ''alice'' ''a@x.com'') = username alice"
    "d_email (register_request ''alice'' ''a@x.com'') = Some (email alice)"
    by (simp_all add: user_store_def alice_def register_request_def no_data_def)
  show ?thesis
    using register_existing_pair[OF unique_user_store a, of no_mail_env]
    by (simp add: sample_mail)
qed

lemma strip_me: "strip ''me'' = ''me''"
  by (simp add: strip_def py_isspace_def)

lemma username_me_rejected:
  "\<exists>es. validate_with validate_username (username_field s i p (Some ''me'')) = Inl es"
  by (simp add: username_field_def CharField_def strip_me validate_with_def
      validate_username_def split: list.splits)

lemma register_serializer_me:
  assumes "d_username data = Some ''me''"
  shows "\<exists>errs. RegisterDataSerializer_is_valid e s data = Inl (ValidationError errs)"
proof -
  from username_me_rejected[of s None False] obtain es where
    "validate_with validate_username (username_field s None False (Some ''me'')) = Inl es" by blast
  then show ?thesis using assms
    by (simp add: RegisterDataSerializer_is_valid_def Let_def field_errors_def)
qed

lemma send_confirm_mail_frame:
  "send_confirm_mail e s u = Inr s' \<Longrightarrow> users s' = users s \<and> reviews s' = reviews s"
  by (auto simp: send_confirm_mail_def split: if_splits)

lemma register_users_me:
  assumes me: "d_username data = Some ''me''"
  shows "users (snd (register e s data)) = users s"
proof -
  from register_serializer_me[OF me, of e s] obtain errs where
    v: "RegisterDataSerializer_is_valid e s data = Inl (ValidationError errs)" by blast
  show ?thesis
    unfolding register_def Let_def using v
    by (auto split: list.splits sum.splits dest: send_confirm_mail_frame)
qed

text \<open>
  Claim C5, as amended. For a registration request with the user name \<open>me\<close>: when
  no user has exactly that name and the requested e-mail address, the request fails
  with \<open>ValidationError\<close> and leaves the store as it was; when such a user exists
  the request is a resend, which hands \<open>send_mail\<close> a confirmation code for that
  user and succeeds with status 200 when the mail is delivered (and fails with the
  error of \<open>send_mail\<close> otherwise); in every case the user table is unchanged.
\<close>

theorem register_me:
  assumes me: "d_username data = Some ''me''"
  shows "(filter (\<lambda>u. username u = Some ''me'' \<and> Some (email u) = d_email data) (users s) = []
            \<longrightarrow> (\<exists>errs. register e s data = (Inl (ValidationError errs), s)))
       \<and> (unique_users s \<and> u \<in> set (users s) \<and> username u = Some ''me''
            \<and> d_email data = Some (email u)
            \<longrightarrow> register e s data =
                  (if send_mail e (confirmation_mail e u)
                   then (Inr ([(''message'', ''confirmation code sent again'')], HTTP_200_OK),
                         s\<lparr>outbox := outbox s @ [confirmation_mail e u]\<rparr>)
                   else (Inl SMTPException, s)))
       \<and> users (snd (register e s data)) = users s"
proof (intro conjI impI)
  assume none: "filter (\<lambda>u. username u = Some ''me'' \<and> Some (email u) = d_email data) (users s) = []"
  from register_serializer_me[OF me, of e s] obtain errs where
    v: "RegisterDataSerializer_is_valid e s data = Inl (ValidationError errs)" by blast
  show "\<exists>errs. register e s data = (Inl (ValidationError errs), s)"
    unfolding register_def Let_def using me v none by simp
next
  assume a: "unique_users s \<and> u \<in> set (users s) \<and> username u = Some ''me''
            \<and> d_email data = Some (email u)"
  with me have "d_username data = username u" by simp
  with a show "register e s data =
                  (if send_mail e (confirmation_mail e u)
                   then (Inr ([(''message'', ''confirmation code sent again'')], HTTP_200_OK),
                         s\<lparr>outbox := outbox s @ [confirmation_mail e u]\<rparr>)
                   else (Inl SMTPException, s))"
    using register_existing_pair[of s u data e] by blast
next
  show "users (snd (register e s data)) = users s" by (rule register_users_me[OF me])
qed

lemma queryset_none:
  "queryset_usernames s None = List.map_filter username (users s)"
  "queryset_emails s None = map email (users s)"
  by (simp_all add: queryset_usernames_def queryset_emails_def)

lemma username_field_me:
  assumes "Some ''me'' \<notin> username ` set (users s)"
  shows "username_field s None False (Some ''me'') = Inr (Some ''me'')"
proof -
  from assms have "''me'' \<notin> set (List.map_filter username (users s))"
    by (simp add: set_map_filter_username)
  then show ?thesis
    by (simp add: username_field_def CharField_def strip_me run_validators_def queryset_none
        UnicodeUsernameValidator_def py_isword_def UniqueValidator_def MaxLengthValidator_def
        ProhibitNullCharactersValidator_def)
qed

lemma email_field_ok:
  assumes "strip em = em" "em \<noteq> []" "length em \<le> 254" "CHR 0x00 \<notin> set em"
    "EmailValidator e em" "em \<notin> email ` set (users s)"
  shows "email_field e s None False (Some em) = Inr (Some em)"
  using assms
  by (simp add: email_field_def CharField_def run_validators_def queryset_none
      UniqueValidator_def MaxLengthValidator_def ProhibitNullCharactersValidator_def)

lemma user_serializer_me:
  assumes "Some ''me'' \<notin> username ` set (users s)"
    and "strip em = em" "em \<noteq> []" "length em \<le> 254" "CHR 0x00 \<notin> set em"
    "EmailValidator e em" "em \<notin> email ` set (users s)"
  shows "UserSerializer_is_valid e s None False (register_request ''me'' em)
           = Inr (register_request ''me'' em)"
  using username_field_me[OF assms(1)] email_field_ok[OF assms(2-7)]
  by (simp add: UserSerializer_is_valid_def register_request_def no_data_def Let_def
      ChoiceField_def CharField_def field_errors_def field_value_def)

lemma create_me_row:
  assumes perm: "IsAdmin e ''POST'' actor"
    and free: "Some ''me'' \<notin> username ` set (users s)"
    and em: "strip em = em" "em \<noteq> []" "length em \<le> 254" "CHR 0x00 \<notin> set em"
      "EmailValidator e em"
    and fresh: "em \<notin> email ` set (users s)"
  shows "UserViewSet_create e s actor (register_request ''me'' em) =
           (Inr ((new_user s)\<lparr>username := Some ''me'', email := em\<rparr>, HTTP_201_CREATED),
            s\<lparr>users := users s @ [(new_user s)\<lparr>username := Some ''me'', email := em\<rparr>]\<rparr>)"
proof -
  let ?u = "(new_user s)\<lparr>username := Some ''me'', email := em\<rparr>"
  have u: "set_attrs (new_user s) (register_request ''me'' em) = ?u"
    by (simp add: set_attrs_def register_request_def no_data_def)
  have "email ?u \<notin> email ` set (filter (\<lambda>x. user_id x \<noteq> user_id ?u) (users s))"
    using fresh by auto
  moreover have "username ?u \<notin> username ` set (filter (\<lambda>x. user_id x \<noteq> user_id ?u) (users s))"
    using free by auto
  ultimately have uq: "user_unique s ?u" by (simp add: user_unique_def Let_def)
  show ?thesis
    using perm uq by (simp add: UserViewSet_create_def user_serializer_me[OF free em fresh] u Let_def)
qed

section \<open>The reserved user name\<close>

text \<open>
  Claim C10. An administrator's request to create a user named \<open>me\<close>, with a
  well-formed e-mail address that no user has and no other field, succeeds with status
  201 and adds the row: \<open>UserSerializer\<close> has no check of the name \<open>me\<close>. The
  same data fails \<open>RegisterDataSerializer\<close>, which has the check.
\<close>

theorem admin_creates_me:
  assumes perm: "IsAdmin e ''POST'' actor"
    and free: "Some ''me'' \<notin> username ` set (users s)"
    and em: "strip em = em" "em \<noteq> []" "length em \<le> 254" "CHR 0x00 \<notin> set em"
      "EmailValidator e em"
    and fresh: "em \<notin> email ` set (users s)"
  shows "UserViewSet_create e s actor (register_request ''me'' em) =
           (Inr ((new_user s)\<lparr>username := Some ''me'', email := em\<rparr>, HTTP_201_CREATED),
            s\<lparr>users := users s @ [(new_user s)\<lparr>username := Some ''me'', email := em\<rparr>]\<rparr>)
       \<and> (\<exists>errs. RegisterDataSerializer_is_valid e s (register_request ''me'' em)
                    = Inl (ValidationError errs))"
proof
  show "UserViewSet_create e s actor (register_request ''me'' em) =
           (Inr ((new_user s)\<lparr>username := Some ''me'', email := em\<rparr>, HTTP_201_CREATED),
            s\<lparr>users := users s @ [(new_user s)\<lparr>username := Some ''me'', email := em\<rparr>]\<rparr>)"
    by (rule create_me_row[OF assms])
  show "\<exists>errs. RegisterDataSerializer_is_valid e s (register_request ''me'' em)
                    = Inl (ValidationError errs)"
    by (rule register_serializer_me) (simp add: register_request_def no_data_def)
qed

lemma strip_me_mail: "strip ''me@x.com'' = ''me@x.com''"
  by (simp add: strip_def py_isspace_def)

lemma new_user_user_store: "(new_user user_store)\<lparr>username := Some ''me'', email := ''me@x.com''\<rparr> = me_user"
  by (simp add: new_user_def user_store_def empty_store_def admin_def alice_def me_user_def next_id_def)

lemma admin_creates_me_sample:
  "UserViewSet_create sample_env user_store (Some admin) (register_request ''me'' ''me@x.com'')
     = (Inr (me_user, 201), me_store)"
proof -
  have 1: "IsAdmin sample_env ''POST'' (Some admin)"
    by (simp add: sample_env_def admin_def is_admin_def)
  have 2: "Some ''me'' \<notin> username ` set (users user_store)"
    by (simp add: user_store_def empty_store_def admin_def alice_def)
  have 3: "EmailValidator sample_env ''me@x.com''" by (simp add: sample_env_def)
  have 4: "''me@x.com'' \<notin> email ` set (users user_store)"
    by (simp add: user_store_def empty_store_def admin_def alice_def)
  have "UserViewSet_create sample_env user_store (Some admin) (register_request ''me'' ''me@x.com'')
     = (Inr (me_user, HTTP_201_CREATED), user_store\<lparr>users := users user_store @ [me_user]\<rparr>)"
    using create_me_row[OF 1 2 strip_me_mail _ _ _ 3 4]
    by (simp add: new_user_user_store)
  then show ?thesis
    by (simp add: HTTP_201_CREATED_def me_store_def user_store_def empty_store_def)
qed

text \<open>The administrator of the sample store creates the user \<open>me\<close>.\<close>

theorem admin_creates_me_witness:
  "IsAdmin sample_env ''POST'' (Some admin)
   \<and> UserViewSet_create sample_env user_store (Some admin) (register_request ''me'' ''me@x.com'')
       = (Inr (me_user, 201), me_store)
   \<and> username me_user = Some ''me''"
proof -
  have 1: "IsAdmin sample_env ''POST'' (Some admin)"
    by (simp add: sample_env_def admin_def is_admin_def)
  have 2: "Some ''me'' \<notin> username ` set (users user_store)"
    by (simp add: user_store_def empty_store_def admin_def alice_def)
  have 3: "EmailValidator sample_env ''me@x.com''" by (simp add: sample_env_def)
  have 4: "''me@x.com'' \<notin> email ` set (users user_store)"
    by (simp add: user_store_def empty_store_def admin_def alice_def)
  have "UserViewSet_create sample_env user_store (Some admin) (register_request ''me'' ''me@x.com'')
     = (Inr (me_user, HTTP_201_CREATED), user_store\<lparr>users := users user_store @ [me_user]\<rparr>)"
    using admin_creates_me[OF 1 2 strip_me_mail _ _ _ 3 4, THEN conjunct1]
    by (simp add: new_user_user_store)
  then have "UserViewSet_create sample_env user_store (Some admin) (register_request ''me'' ''me@x.com'')
       = (Inr (me_user, 201), me_store)"
    by (simp add: HTTP_201_CREATED_def me_store_def user_store_def empty_store_def)
  with 1 show ?thesis by (simp add: me_user_def)
qed

lemma unique_me_store: "unique_users me_store"
  by (simp add: unique_users_def me_store_def user_store_def empty_store_def admin_def alice_def me_user_def)

text \<open>
  Registering \<open>me\<close> on a store where nobody has that name fails; on the store where
  the administrator has created \<open>me\<close> it is a resend.
\<close>

theorem register_me_witness:
  "(\<exists>errs. register sample_env user_store (register_request ''me'' ''me@x.com'')
              = (Inl (ValidationError errs), user_store))
   \<and> users (snd (register sample_env user_store (register_request ''me'' ''me@x.com'')))
       = [admin, alice]
   \<and> register sample_env me_store (register_request ''me'' ''me@x.com'')
       = (Inr ([(''message'', ''confirmation code sent again'')], 200),
          me_store\<lparr>outbox := [confirmation_mail sample_env me_user]\<rparr>)"
proof -
  have me: "d_username (register_request ''me'' ''me@x.com'') = Some ''me''"
    by (simp add: register_request_def no_data_def)
  have none: "filter (\<lambda>u. username u = Some ''me''
       \<and> Some (email u) = d_email (register_request ''me'' ''me@x.com'')) (users user_store) = []"
    by (simp add: user_store_def empty_store_def admin_def alice_def)
  note r = register_me[OF me, of user_store sample_env]
  from r[THEN conjunct1, rule_format, OF none]
  have 1: "\<exists>errs. register sample_env user_store (register_request ''me'' ''me@x.com'')
              = (Inl (ValidationError errs), user_store)" .
  from r[THEN conjunct2, THEN conjunct2]
  have 2: "users (snd (register sample_env user_store (register_request ''me'' ''me@x.com'')))
       = [admin, alice]" by (simp add: user_store_def empty_store_def)
  have a: "unique_users me_store \<and> me_user \<in> set (users me_store)
      \<and> username me_user = Some ''me''
      \<and> d_email (register_request ''me'' ''me@x.com'') = Some (email me_user)"
    using unique_me_store
    by (simp add: me_store_def me_user_def register_request_def no_data_def)
  have 3: "register sample_env me_store (register_request ''me'' ''me@x.com'')
       = (Inr ([(''message'', ''confirmation code sent again'')], 200),
          me_store\<lparr>outbox := [confirmation_mail sample_env me_user]\<rparr>)"
    using register_me[OF me, of me_store sample_env me_user, THEN conjunct2, THEN conjunct1,
        rule_format, OF a]
    by (simp add: sample_mail HTTP_200_OK_def me_store_def user_store_def empty_store_def)
  from 1 2 3 show ?thesis by (simp only: simp_thms)
qed

text \<open>
  Claim C5 as it is written fails once an administrator has created the user \<open>me\<close>:
  registering that name with that user's address succeeds, as a resend.
\<close>

theorem register_me_counterexample:
  "UserViewSet_create sample_env user_store (Some admin) (register_request ''me'' ''me@x.com'')
       = (Inr (me_user, 201), me_store)
   \<and> register sample_env me_store (register_request ''me'' ''me@x.com'')
       = (Inr ([(''message'', ''confirmation code sent again'')], 200),
          me_store\<lparr>outbox := [confirmation_mail sample_env me_user]\<rparr>)"
proof -
  have a: "me_user \<in> set (users me_store)"
    "d_username (register_request ''me'' ''me@x.com'') = username me_user"
    "d_email (register_request ''me'' ''me@x.com'') = Some (email me_user)"
    by (simp_all add: me_store_def me_user_def register_request_def no_data_def)
  have r: "register sample_env me_store (register_request ''me'' ''me@x.com'')
       = (Inr ([(''message'', ''confirmation code sent again'')], 200),
          me_store\<lparr>outbox := [confirmation_mail sample_env me_user]\<rparr>)"
    using register_existing_pair[OF unique_me_store a, of sample_env]
    by (simp add: sample_mail HTTP_200_OK_def me_store_def user_store_def empty_store_def)
  show ?thesis using admin_creates_me_sample r by simp
qed

section \<open>The role of a user\<close>

lemma edit_serializer_no_role:
  "UserEditSerializer_is_valid e s i p data = Inr vd \<Longrightarrow> d_role vd = None"
  by (auto simp: UserEditSerializer_is_valid_def Let_def split: if_splits)

lemma set_attrs_keeps:
  "user_id (set_attrs u vd) = user_id u"
  "d_role vd = None \<Longrightarrow> role (set_attrs u vd) = role u"
  by (simp_all add: set_attrs_def)

lemma same_id_same_row:
  assumes "distinct (map user_id xs)" "u \<in> set xs" "x \<in> set xs" "user_id x = user_id u"
  shows "x = u"
  using assms by (meson distinct_map inj_onD)

lemma save_user_roles:
  assumes ids: "distinct (map user_id (users s))"
    and u: "u \<in> set (users s)"
    and same: "user_id u' = user_id u" "role u' = role u"
    and save: "save_user s u' = Inr s'"
  shows "map (\<lambda>x. (user_id x, role x)) (users s') = map (\<lambda>x. (user_id x, role x)) (users s)"
proof -
  from u same have "user_id u' \<in> set (map user_id (users s))" by force
  with save have s': "users s' = map (\<lambda>x. if user_id x = user_id u' then u' else x) (users s)"
    by (auto simp: save_user_def split: if_splits)
  have "\<And>x. x \<in> set (users s) \<Longrightarrow>
      (user_id (if user_id x = user_id u' then u' else x), role (if user_id x = user_id u' then u' else x))
        = (user_id x, role x)"
    using same same_id_same_row[OF ids u] by auto
  then show ?thesis unfolding s' by (simp add: comp_def)
qed

lemma own_profile_roles:
  assumes uniq: "unique_users s" and u: "u \<in> set (users s)"
  shows "map (\<lambda>x. (user_id x, role x)) (users (snd (users_own_profile e s (Some u) method data)))
           = map (\<lambda>x. (user_id x, role x)) (users s)"
proof -
  from uniq have ids: "distinct (map user_id (users s))" by (simp add: unique_users_def)
  show ?thesis
  proof (cases "method = ''PATCH''")
    case False
    then show ?thesis by (simp add: users_own_profile_def IsAuthenticated_def)
  next
    case True
    show ?thesis
    proof (cases "UserEditSerializer_is_valid e s (Some u) True data")
      case (Inl err)
      with True show ?thesis by (simp add: users_own_profile_def IsAuthenticated_def)
    next
      case (Inr vd)
      then have r: "d_role vd = None" by (rule edit_serializer_no_role)
      show ?thesis
      proof (cases "save_user s (set_attrs u vd)")
        case (Inl err)
        with True Inr show ?thesis by (simp add: users_own_profile_def IsAuthenticated_def)
      next
        case (Inr s')
        from save_user_roles[OF ids u set_attrs_keeps(1) set_attrs_keeps(2)[OF r] Inr]
        show ?thesis using True \<open>UserEditSerializer_is_valid e s (Some u) True data = Inr vd\<close> Inr
          by (simp add: users_own_profile_def IsAuthenticated_def)
      qed
    qed
  qed
qed

lemma get_or_create_users:
  "get_or_create s un em = Inr (u, s') \<Longrightarrow>
     users s' = users s \<or> (\<exists>n. users s' = users s @ [n] \<and> role n = USER)"
  by (auto simp: get_or_create_def new_user_def Let_def split: list.splits option.splits if_splits)

lemma register_roles:
  "users (snd (register e s data)) = users s
   \<or> (\<exists>n. users (snd (register e s data)) = users s @ [n] \<and> role n = USER)"
proof (cases "filter (\<lambda>u. username u = d_username data \<and> Some (email u) = d_email data) (users s) \<noteq> []")
  case True
  then show ?thesis
    by (auto simp: register_def Let_def split: list.splits sum.splits
        dest: send_confirm_mail_frame)
next
  case False
  show ?thesis
  proof (cases "RegisterDataSerializer_is_valid e s data")
    case (Inl err)
    with False show ?thesis by (simp add: register_def Let_def)
  next
    case (Inr p)
    obtain un em where p: "p = (un, em)" by (cases p)
    show ?thesis
    proof (cases "get_or_create s un em")
      case (Inl err)
      with False Inr p show ?thesis by (simp add: register_def Let_def)
    next
      case (Inr q)
      obtain u s' where q: "q = (u, s')" by (cases q)
      from get_or_create_users[of s un em u s'] Inr q
      have k: "users s' = users s \<or> (\<exists>n. users s' = users s @ [n] \<and> role n = USER)" by simp
      have "users (snd (register e s data)) = users s'"
        using False \<open>RegisterDataSerializer_is_valid e s data = Inr p\<close> p Inr q
        by (auto simp: register_def Let_def split: sum.splits dest: send_confirm_mail_frame)
      with k show ?thesis by simp
    qed
  qed
qed

text \<open>
  Claim C9. An update of the requester's own profile leaves the role of every user,
  the requester's included, as it was, whatever the data: \<open>role\<close> is read-only in
  \<open>UserEditSerializer\<close>. Registration does not touch the role of an existing user
  either: the most it does to the user table is add a row with the role \<open>user\<close>.
  The requester is a row of the user table, whose primary key is unique.
\<close>

theorem own_profile_keeps_role:
  assumes uniq: "unique_users s" and u: "u \<in> set (users s)"
  shows "map (\<lambda>x. (user_id x, role x)) (users (snd (users_own_profile e s (Some u) method data)))
           = map (\<lambda>x. (user_id x, role x)) (users s)
       \<and> (users (snd (register e s data')) = users s
          \<or> (\<exists>n. users (snd (register e s data')) = users s @ [n] \<and> role n = USER))"
  using own_profile_roles[OF assms] register_roles by blast

lemma strip_hi: "strip ''hi'' = ''hi''"
  by (simp add: strip_def py_isspace_def)

lemma own_profile_sample:
  "users_own_profile sample_env user_store (Some alice) ''PATCH'' promote_request
     = (Inr (Some (alice\<lparr>bio := Some ''hi''\<rparr>), 200),
        user_store\<lparr>users := [admin, alice\<lparr>bio := Some ''hi''\<rparr>]\<rparr>)"
proof -
  have v: "UserEditSerializer_is_valid sample_env user_store (Some alice) True promote_request
      = Inr (no_data\<lparr>d_bio := Some ''hi''\<rparr>)"
    by (simp add: UserEditSerializer_is_valid_def promote_request_def no_data_def Let_def
        username_field_def email_field_def CharField_def strip_hi run_validators_def
        ProhibitNullCharactersValidator_def field_errors_def field_value_def)
  have a: "set_attrs alice (no_data\<lparr>d_bio := Some ''hi''\<rparr>) = alice\<lparr>bio := Some ''hi''\<rparr>"
    by (simp add: set_attrs_def no_data_def)
  have sv: "save_user user_store (alice\<lparr>bio := Some ''hi''\<rparr>)
      = Inr (user_store\<lparr>users := [admin, alice\<lparr>bio := Some ''hi''\<rparr>]\<rparr>)"
    by (simp add: save_user_def user_unique_def Let_def user_store_def empty_store_def admin_def alice_def)
  show ?thesis
    by (simp add: users_own_profile_def IsAuthenticated_def v a sv HTTP_200_OK_def)
qed

text \<open>
  Alice asks for the role \<open>admin\<close> and a new \<open>bio\<close>: the \<open>bio\<close> is stored, the
  role is not.
\<close>

theorem own_profile_keeps_role_witness:
  "unique_users user_store
   \<and> users_own_profile sample_env user_store (Some alice) ''PATCH'' promote_request
       = (Inr (Some (alice\<lparr>bio := Some ''hi''\<rparr>), 200),
          user_store\<lparr>users := [admin, alice\<lparr>bio := Some ''hi''\<rparr>]\<rparr>)
   \<and> map (\<lambda>x. (user_id x, role x))
        (users (snd (users_own_profile sample_env user_store (Some alice) ''PATCH'' promote_request)))
       = [(1, ''admin''), (2, ''user'')]"
proof -
  have a: "alice \<in> set (users user_store)" by (simp add: user_store_def)
  from own_profile_keeps_role[OF unique_user_store a, of sample_env "''PATCH''" promote_request,
      THEN conjunct1]
  have "map (\<lambda>x. (user_id x, role x))
        (users (snd (users_own_profile sample_env user_store (Some alice) ''PATCH'' promote_request)))
       = [(1, ''admin''), (2, ''user'')]"
    by (simp add: user_store_def empty_store_def admin_def alice_def ADMIN_def USER_def)
  with unique_user_store own_profile_sample show ?thesis by (simp only: simp_thms)
qed

section \<open>Deleting a category or a genre\<close>

lemma delete_category_fields:
  "map title_id (titles (delete_category s cid)) = map title_id (titles s)"
  "map title_name (titles (delete_category s cid)) = map title_name (titles s)"
  "map year (titles (delete_category s cid)) = map year (titles s)"
  "map description (titles (delete_category s cid)) = map description (titles s)"
  "map category (titles (delete_category s cid))
     = map (\<lambda>t. if category t = Some cid then None else category t) (titles s)"
  by (simp_all add: delete_category_def comp_def if_distrib cong: if_cong)

lemma category_destroy_ok:
  assumes "CategoryViewSet_destroy e s actor slug = (Inr resp, s')"
  shows "\<exists>c\<in>set (categories s). category_slug c = slug \<and> s' = delete_category s (category_id c)"
proof -
  from assms obtain c where
    c: "get_object_or_404 (filter (\<lambda>c. category_slug c = slug) (categories s)) = Inr c"
    and s': "s' = delete_category s (category_id c)"
    by (auto simp: CategoryViewSet_destroy_def split: if_splits sum.splits)
  from get_object_filter[OF c] s' show ?thesis by blast
qed

lemma genre_destroy_ok:
  assumes "GenreViewSet_destroy e s actor slug = (Inr resp, s')"
  shows "\<exists>g\<in>set (genres s). genre_slug g = slug \<and> s' = delete_genre s (genre_id g)"
proof -
  from assms obtain g where
    g: "get_object_or_404 (filter (\<lambda>g. genre_slug g = slug) (genres s)) = Inr g"
    and s': "s' = delete_genre s (genre_id g)"
    by (auto simp: GenreViewSet_destroy_def split: if_splits sum.splits)
  from get_object_filter[OF g] s' show ?thesis by blast
qed

text \<open>
  Claim C8. A successful deletion of a category removes that category, sets to null
  the category of exactly the titles that referred to it, and leaves every title in
  place with its key, name, year and description, and the join rows and reviews
  untouched. A successful deletion of a genre removes that genre and exactly the join
  rows that referred to it, and leaves the titles as they were.
\<close>

theorem catalog_delete_frame:
  "(CategoryViewSet_destroy e s actor slug = (Inr resp, s') \<longrightarrow>
      (\<exists>c\<in>set (categories s). category_slug c = slug
         \<and> categories s' = filter (\<lambda>x. category_id x \<noteq> category_id c) (categories s)
         \<and> map category (titles s')
             = map (\<lambda>t. if category t = Some (category_id c) then None else category t) (titles s))
      \<and> map title_id (titles s') = map title_id (titles s)
      \<and> map title_name (titles s') = map title_name (titles s)
      \<and> map year (titles s') = map year (titles s)
      \<and> map description (titles s') = map description (titles s)
      \<and> genre_titles s' = genre_titles s \<and> reviews s' = reviews s)
   \<and> (GenreViewSet_destroy e s actor slug = (Inr resp, s'') \<longrightarrow>
      (\<exists>g\<in>set (genres s). genre_slug g = slug
         \<and> genres s'' = filter (\<lambda>x. genre_id x \<noteq> genre_id g) (genres s)
         \<and> genre_titles s''
             = filter (\<lambda>gt. gt_genre gt \<noteq> Some (genre_id g)) (genre_titles s))
      \<and> titles s'' = titles s \<and> reviews s'' = reviews s)"
proof (intro conjI impI)
  assume a: "CategoryViewSet_destroy e s actor slug = (Inr resp, s')"
  from category_destroy_ok[OF a] obtain c where
    c: "c \<in> set (categories s)" "category_slug c = slug" "s' = delete_category s (category_id c)"
    by blast
  from c show "\<exists>c\<in>set (categories s). category_slug c = slug
         \<and> categories s' = filter (\<lambda>x. category_id x \<noteq> category_id c) (categories s)
         \<and> map category (titles s')
             = map (\<lambda>t. if category t = Some (category_id c) then None else category t) (titles s)"
    using delete_category_fields(5)[of s "category_id c"] by (auto simp: delete_category_def)
  from c show "map title_id (titles s') = map title_id (titles s)"
    "map title_name (titles s') = map title_name (titles s)"
    "map year (titles s') = map year (titles s)"
    "map description (titles s') = map description (titles s)"
    by (simp_all add: delete_category_fields)
  from c show "genre_titles s' = genre_titles s" "reviews s' = reviews s"
    by (simp_all add: delete_category_def)
next
  assume a: "GenreViewSet_destroy e s actor slug = (Inr resp, s'')"
  from genre_destroy_ok[OF a] obtain g where
    g: "g \<in> set (genres s)" "genre_slug g = slug" "s'' = delete_genre s (genre_id g)"
    by blast
  from g show "\<exists>g\<in>set (genres s). genre_slug g = slug
         \<and> genres s'' = filter (\<lambda>x. genre_id x \<noteq> genre_id g) (genres s)
         \<and> genre_titles s''
             = filter (\<lambda>gt. gt_genre gt \<noteq> Some (genre_id g)) (genre_titles s)"
    by (auto simp: delete_genre_def)
  from g show "titles s'' = titles s" "reviews s'' = reviews s"
    by (simp_all add: delete_genre_def)
qed

lemma category_destroy_sample:
  "CategoryViewSet_destroy sample_env catalog_store (Some admin) ''films''
     = (Inr ((), 204), catalog_store\<lparr>categories := [], titles := [film_title\<lparr>category := None\<rparr>]\<rparr>)"
  by (simp add: CategoryViewSet_destroy_def sample_env_def admin_def is_admin_def
      get_object_or_404_def catalog_store_def films_def delete_category_def film_title_def
      HTTP_204_NO_CONTENT_def)

lemma genre_destroy_sample:
  "GenreViewSet_destroy sample_env catalog_store (Some admin) ''drama''
     = (Inr ((), 204), catalog_store\<lparr>genres := [], genre_titles := []\<rparr>)"
  by (simp add: GenreViewSet_destroy_def sample_env_def admin_def is_admin_def
      get_object_or_404_def catalog_store_def drama_def delete_genre_def
      HTTP_204_NO_CONTENT_def)

text \<open>
  Deleting the category and deleting the genre of the one title of the sample catalog.
\<close>

theorem catalog_delete_frame_witness:
  "CategoryViewSet_destroy sample_env catalog_store (Some admin) ''films''
     = (Inr ((), 204), catalog_store\<lparr>categories := [], titles := [film_title\<lparr>category := None\<rparr>]\<rparr>)
   \<and> map title_name (titles (catalog_store\<lparr>categories := [],
         titles := [film_title\<lparr>category := None\<rparr>]\<rparr>)) = [''Solaris'']
   \<and> GenreViewSet_destroy sample_env catalog_store (Some admin) ''drama''
     = (Inr ((), 204), catalog_store\<lparr>genres := [], genre_titles := []\<rparr>)
   \<and> titles (catalog_store\<lparr>genres := [], genre_titles := []\<rparr>) = [film_title]"
proof -
  have 1: "map title_name (titles (catalog_store\<lparr>categories := [],
         titles := [film_title\<lparr>category := None\<rparr>]\<rparr>)) = [''Solaris'']"
    using catalog_delete_frame[where e = sample_env and s = catalog_store
        and actor = "Some admin" and slug = "''films''" and resp = "((), 204)"
        and s' = "catalog_store\<lparr>categories := [], titles := [film_title\<lparr>category := None\<rparr>]\<rparr>",
        THEN conjunct1, rule_format, OF category_destroy_sample]
    by (simp add: catalog_store_def film_title_def)
  have 2: "titles (catalog_store\<lparr>genres := [], genre_titles := []\<rparr>) = [film_title]"
    by (simp add: catalog_store_def)
  from category_destroy_sample genre_destroy_sample 1 2 show ?thesis by (simp only: simp_thms)
qed

section \<open>Reviews\<close>

lemma score_field_out_of_range:
  assumes "sc < 1 \<or> 10 < sc"
  shows "\<exists>es. score_field partial (Some sc) = Inl es"
  using assms
  by (auto simp: score_field_def IntegerField_def run_validators_def MaxValueValidator_def
      MinValueValidator_def validate_with_def)

lemma score_field_in_range:
  assumes "1 \<le> sc" "sc \<le> 10"
  shows "score_field partial (Some sc) = Inr (Some sc)"
  using assms
  by (simp add: score_field_def IntegerField_def run_validators_def MaxValueValidator_def
      MinValueValidator_def validate_with_def validate_score_def)

lemma review_serializer_bad_score:
  assumes "d_score data = Some sc" "sc < 1 \<or> 10 < sc"
  shows "\<exists>errs. ReviewSerializer_is_valid s method actor tid partial data
           = Inl (ValidationError errs) \<and> ''score'' \<in> fst ` set errs"
proof -
  from score_field_out_of_range[OF assms(2), of partial] obtain es where
    "score_field partial (Some sc) = Inl es" by blast
  with assms(1) show ?thesis
    by (simp add: ReviewSerializer_is_valid_def Let_def field_errors_def)
qed

text \<open>
  Claim C6. A request to create a review whose score is below 1 or above 10 leaves the
  store as it was and, once the permission class has let it through, fails with a
  \<open>ValidationError\<close> on the field \<open>score\<close>. A score from 1 to 10 passes
  \<open>validate_score\<close> and the whole validation of the field.
\<close>

theorem score_out_of_range:
  "(d_score data = Some sc \<and> (sc < 1 \<or> 10 < sc) \<longrightarrow>
      snd (ReviewViewSet_create e s actor tid now data) = s
      \<and> (IsAdminModeratorOwnerOrReadOnly e ''POST'' actor \<longrightarrow>
           (\<exists>errs. fst (ReviewViewSet_create e s actor tid now data) = Inl (ValidationError errs)
                    \<and> ''score'' \<in> fst ` set errs)))
   \<and> (1 \<le> sc \<and> sc \<le> 10 \<longrightarrow>
        validate_score sc = Inr sc \<and> score_field partial (Some sc) = Inr (Some sc))"
proof (intro conjI impI)
  assume a: "d_score data = Some sc \<and> (sc < 1 \<or> 10 < sc)"
  from review_serializer_bad_score[of data sc s "''POST''" actor tid False] a obtain errs where
    v: "ReviewSerializer_is_valid s ''POST'' actor tid False data = Inl (ValidationError errs)"
    and k: "''score'' \<in> fst ` set errs" by blast
  show "snd (ReviewViewSet_create e s actor tid now data) = s"
    by (simp add: ReviewViewSet_create_def v)
  assume "IsAdminModeratorOwnerOrReadOnly e ''POST'' actor"
  then show "\<exists>errs. fst (ReviewViewSet_create e s actor tid now data) = Inl (ValidationError errs)
                    \<and> ''score'' \<in> fst ` set errs"
    using k by (simp add: ReviewViewSet_create_def v)
next
  assume "1 \<le> sc \<and> sc \<le> 10"
  then show "validate_score sc = Inr sc" by (simp add: validate_score_def)
next
  assume "1 \<le> sc \<and> sc \<le> 10"
  then show "score_field partial (Some sc) = Inr (Some sc)" by (simp add: score_field_in_range)
qed

lemma strip_good: "strip ''good'' = ''good''" "strip ''fine'' = ''fine''"
  by (simp_all add: strip_def py_isspace_def)

lemma create_perm_alice: "IsAdminModeratorOwnerOrReadOnly sample_env ''POST'' (Some alice)"
  by (simp add: sample_env_def)

text \<open>Alice's review with the score 11 is refused; the score 7 passes.\<close>

theorem score_out_of_range_witness:
  "IsAdminModeratorOwnerOrReadOnly sample_env ''POST'' (Some alice)
   \<and> ReviewViewSet_create sample_env catalog_store (Some alice) 1 5 (review_request ''fine'' 11)
       = (Inl (ValidationError [(''score'', [''max_value''])]), catalog_store)
   \<and> score_field False (Some 7) = Inr (Some 7)"
proof -
  have d: "d_score (review_request ''fine'' 11) = Some 11 \<and> ((11::int) < 1 \<or> (10::int) < 11)"
    by (simp add: review_request_def)
  note t = score_out_of_range[of "review_request ''fine'' 11" 11 sample_env catalog_store
      "Some alice" 1 5 False]
  from t[THEN conjunct1, rule_format, OF d]
  have u: "snd (ReviewViewSet_create sample_env catalog_store (Some alice) 1 5
      (review_request ''fine'' 11)) = catalog_store" by simp
  have f: "fst (ReviewViewSet_create sample_env catalog_store (Some alice) 1 5
      (review_request ''fine'' 11)) = Inl (ValidationError [(''score'', [''max_value''])])"
    by (simp add: ReviewViewSet_create_def create_perm_alice ReviewSerializer_is_valid_def
        review_request_def text_field_def CharField_def strip_good run_validators_def
        ProhibitNullCharactersValidator_def score_field_def IntegerField_def
        MaxValueValidator_def MinValueValidator_def validate_with_def field_errors_def Let_def)
  have 1: "ReviewViewSet_create sample_env catalog_store (Some alice) 1 5 (review_request ''fine'' 11)
       = (Inl (ValidationError [(''score'', [''max_value''])]), catalog_store)"
    using u f by (simp add: prod_eq_iff)
  have 2: "score_field False (Some 7) = Inr (Some 7)"
    using score_out_of_range[of data 7 e s actor tid now False, THEN conjunct2] by simp
  from create_perm_alice 1 2 show ?thesis by (simp only: simp_thms)
qed

lemma get_object_or_404_errors:
  "get_object_or_404 xs = Inl err \<Longrightarrow> err = Http404 \<or> err = MultipleObjectsReturned"
  by (auto simp: get_object_or_404_def split: list.splits)

lemma permission_denied_cases: "permission_denied actor = NotAuthenticated \<or> permission_denied actor = PermissionDenied"
  by (simp add: permission_denied_def split: option.splits)

lemma review_get_object_errors:
  assumes "ReviewViewSet_get_object e s actor method tid pk = Inl err"
  shows "err = Http404 \<or> err = MultipleObjectsReturned \<or> err = NotAuthenticated \<or> err = PermissionDenied"
  using assms permission_denied_cases[of actor]
  by (auto simp: ReviewViewSet_get_object_def split: sum.splits if_splits
      dest!: get_object_or_404_errors)

lemma review_get_object_row:
  assumes "ReviewViewSet_get_object e s actor method tid pk = Inr obj"
  shows "obj \<in> set (reviews s) \<and> review_id obj = pk \<and> title obj = tid"
proof -
  from assms obtain t where
    t: "get_object_or_404 (filter (\<lambda>x. title_id x = tid) (titles s)) = Inr t"
    and o: "get_object_or_404 (filter (\<lambda>r. review_id r = pk)
                     (filter (\<lambda>r. title r = title_id t) (reviews s))) = Inr obj"
    by (auto simp: ReviewViewSet_get_object_def split: sum.splits if_splits)
  from get_object_filter[OF t] get_object_filter[OF o] show ?thesis by simp
qed

lemma review_valid_errors:
  assumes "method \<noteq> ''POST''"
    and "ReviewSerializer_is_valid s method actor tid partial data = Inl err"
  shows "err = Http404 \<or> err = MultipleObjectsReturned
       \<or> (\<exists>errs. err = ValidationError errs \<and> errs \<noteq> [] \<and> fst ` set errs \<subseteq> {''text'', ''score''})"
  using assms
  by (auto simp: ReviewSerializer_is_valid_def Let_def field_errors_def
      split: if_splits sum.splits dest!: get_object_or_404_errors)

lemma review_valid_independent:
  assumes "method \<noteq> ''POST''"
  shows "ReviewSerializer_is_valid (s\<lparr>reviews := rs\<rparr>) method actor tid partial data
       = ReviewSerializer_is_valid s method actor tid partial data"
  using assms by (auto simp: ReviewSerializer_is_valid_def Let_def split: sum.splits)

lemma update_review_errors: "update_review s r = Inl err \<Longrightarrow> err = IntegrityError \<and> \<not> unique_review s r"
  by (auto simp: update_review_def split: if_splits)

lemma update_method: "(if partial then ''PATCH'' else ''PUT'') \<noteq> ''POST''"
  by simp

lemma review_update_errors:
  assumes "fst (ReviewViewSet_update e s actor partial tid pk data) = Inl err"
  shows "err = Http404 \<or> err = MultipleObjectsReturned \<or> err = NotAuthenticated
       \<or> err = PermissionDenied
       \<or> (\<exists>errs. err = ValidationError errs \<and> errs \<noteq> [] \<and> fst ` set errs \<subseteq> {''text'', ''score''})
       \<or> (err = IntegrityError \<and> (\<exists>obj\<in>set (reviews s). \<exists>r. review_id r = review_id obj
              \<and> title r = title obj \<and> author r = author obj \<and> \<not> unique_review s r))"
proof -
  let ?m = "if partial then ''PATCH'' else ''PUT''"
  show ?thesis
  proof (cases "IsAdminModeratorOwnerOrReadOnly e ?m actor")
    case False
    with assms permission_denied_cases[of actor] show ?thesis
      by (auto simp: ReviewViewSet_update_def Let_def)
  next
    case perm: True
    show ?thesis
    proof (cases "ReviewViewSet_get_object e s actor ?m tid pk")
      case (Inl x)
      with assms perm have "err = x" by (simp add: ReviewViewSet_update_def Let_def)
      with review_get_object_errors[OF Inl] show ?thesis by blast
    next
      case obj: (Inr obj)
      show ?thesis
      proof (cases "ReviewSerializer_is_valid s ?m actor tid partial data")
        case (Inl x)
        with assms perm obj have "err = x" by (simp add: ReviewViewSet_update_def Let_def)
        with review_valid_errors[OF update_method Inl] show ?thesis by blast
      next
        case vd: (Inr vd)
        let ?r = "obj\<lparr>review_text := (case d_text vd of None \<Rightarrow> review_text obj | Some v \<Rightarrow> v),
                       score := (case d_score vd of None \<Rightarrow> score obj | Some v \<Rightarrow> v)\<rparr>"
        show ?thesis
        proof (cases "update_review s ?r")
          case (Inl x)
          with assms perm obj vd have "err = x" by (simp add: ReviewViewSet_update_def Let_def)
          with update_review_errors[OF Inl] review_get_object_row[OF obj]
          have "err = IntegrityError \<and> (\<exists>obj\<in>set (reviews s). \<exists>r. review_id r = review_id obj
              \<and> title r = title obj \<and> author r = author obj \<and> \<not> unique_review s r)"
            by (intro conjI bexI[of _ obj] exI[of _ ?r]) simp_all
          then show ?thesis by blast
        next
          case (Inr s')
          with assms perm obj vd show ?thesis by (simp add: ReviewViewSet_update_def Let_def)
        qed
      qed
    qed
  qed
qed

lemma same_row_unique:
  assumes inv: "unique_reviews s" and obj: "obj \<in> set (reviews s)"
    and r: "review_id r = review_id obj" "title r = title obj" "author r = author obj"
  shows "unique_review s r"
proof -
  from inv have d: "distinct (map (\<lambda>x. (title x, author x)) (reviews s))"
    by (simp add: unique_reviews_def)
  have "\<And>x. x \<in> set (reviews s) \<Longrightarrow> (title x, author x) = (title obj, author obj) \<Longrightarrow> x = obj"
    using d obj by (meson distinct_map inj_onD)
  then show ?thesis using r by (auto simp: unique_review_def)
qed

text \<open>
  Claim C7. Updating (\<open>PUT\<close> or \<open>PATCH\<close>) and deleting a review never fail with
  the error of the duplicate check; the validation of an update does not depend on the
  reviews in the store at all; and on a store that satisfies the uniqueness constraint
  an update is never refused by the database either. Only \<open>POST\<close> runs the check.
\<close>

theorem update_skips_duplicate_check:
  "fst (ReviewViewSet_update e s actor partial tid pk data)
      \<noteq> Inl (ValidationError [(''non_field_errors'', [''only one review per title''])])
   \<and> fst (ReviewViewSet_destroy e s actor tid pk)
      \<noteq> Inl (ValidationError [(''non_field_errors'', [''only one review per title''])])
   \<and> ReviewSerializer_is_valid (s\<lparr>reviews := rs\<rparr>) (if partial then ''PATCH'' else ''PUT'')
        actor tid partial data
      = ReviewSerializer_is_valid s (if partial then ''PATCH'' else ''PUT'') actor tid partial data
   \<and> (unique_reviews s \<longrightarrow>
        fst (ReviewViewSet_update e s actor partial tid pk data) \<noteq> Inl IntegrityError)"
proof (intro conjI impI)
  show "fst (ReviewViewSet_update e s actor partial tid pk data)
      \<noteq> Inl (ValidationError [(''non_field_errors'', [''only one review per title''])])"
    using review_update_errors[of e s actor partial tid pk data] by fastforce
  show "fst (ReviewViewSet_destroy e s actor tid pk)
      \<noteq> Inl (ValidationError [(''non_field_errors'', [''only one review per title''])])"
    using permission_denied_cases[of actor]
    by (auto simp: ReviewViewSet_destroy_def split: sum.splits dest!: review_get_object_errors)
  show "ReviewSerializer_is_valid (s\<lparr>reviews := rs\<rparr>) (if partial then ''PATCH'' else ''PUT'')
        actor tid partial data
      = ReviewSerializer_is_valid s (if partial then ''PATCH'' else ''PUT'') actor tid partial data"
    by (rule review_valid_independent[OF update_method])
  assume "unique_reviews s"
  then show "fst (ReviewViewSet_update e s actor partial tid pk data) \<noteq> Inl IntegrityError"
    using review_update_errors[of e s actor partial tid pk data IntegrityError] same_row_unique
    by auto
qed

lemma unique_review_store: "unique_reviews review_store"
  by (simp add: unique_reviews_def review_store_def)

lemma alice_patch_sample:
  "ReviewViewSet_update sample_env review_store (Some alice) True 1 1
      \<lparr>d_text = None, d_score = Some 9\<rparr>
     = (Inr (alice_review\<lparr>score := 9\<rparr>, 200),
        review_store\<lparr>reviews := [alice_review\<lparr>score := 9\<rparr>]\<rparr>)"
proof -
  have g: "ReviewViewSet_get_object sample_env review_store (Some alice) ''PATCH'' 1 1
      = Inr alice_review"
    by (simp add: ReviewViewSet_get_object_def get_object_or_404_def review_store_def
        catalog_store_def film_title_def alice_review_def sample_env_def alice_def)
  have v: "ReviewSerializer_is_valid review_store ''PATCH'' (Some alice) 1 True
      \<lparr>d_text = None, d_score = Some 9\<rparr> = Inr \<lparr>d_text = None, d_score = Some 9\<rparr>"
    by (simp add: ReviewSerializer_is_valid_def Let_def text_field_def CharField_def
        score_field_in_range field_errors_def field_value_def get_object_or_404_def
        review_store_def catalog_store_def film_title_def)
  have u: "update_review review_store (alice_review\<lparr>score := 9\<rparr>)
      = Inr (review_store\<lparr>reviews := [alice_review\<lparr>score := 9\<rparr>]\<rparr>)"
    by (simp add: update_review_def unique_review_def review_store_def)
  have p: "IsAdminModeratorOwnerOrReadOnly sample_env ''PATCH'' (Some alice)"
    by (simp add: sample_env_def)
  show ?thesis
    by (simp add: ReviewViewSet_update_def Let_def g v u p HTTP_200_OK_def del: One_nat_def)
qed

text \<open>Alice changes the score of the review she already has.\<close>

theorem update_skips_duplicate_check_witness:
  "unique_reviews review_store
   \<and> ReviewViewSet_update sample_env review_store (Some alice) True 1 1
        \<lparr>d_text = None, d_score = Some 9\<rparr>
       = (Inr (alice_review\<lparr>score := 9\<rparr>, 200),
          review_store\<lparr>reviews := [alice_review\<lparr>score := 9\<rparr>]\<rparr>)
   \<and> fst (ReviewViewSet_update sample_env review_store (Some alice) True 1 1
        \<lparr>d_text = None, d_score = Some 9\<rparr>) \<noteq> Inl IntegrityError"
proof -
  from update_skips_duplicate_check[of sample_env review_store "Some alice" True 1 1
      "\<lparr>d_text = None, d_score = Some 9\<rparr>", THEN conjunct2, THEN conjunct2, THEN conjunct2,
      rule_format, OF unique_review_store]
  have "fst (ReviewViewSet_update sample_env review_store (Some alice) True 1 1
        \<lparr>d_text = None, d_score = Some 9\<rparr>) \<noteq> Inl IntegrityError" .
  with unique_review_store alice_patch_sample show ?thesis by (simp only: simp_thms)
qed

section \<open>One review per title and author\<close>

lemma fold_max_ge: "(a::nat) \<le> fold max xs a"
  by (induction xs arbitrary: a) (auto intro: order_trans[OF max.cobounded2])

lemma fold_max_mem: "(x::nat) \<in> set xs \<Longrightarrow> x \<le> fold max xs a"
proof (induction xs arbitrary: a)
  case Nil then show ?case by simp
next
  case (Cons y ys)
  show ?case
  proof (cases "x = y")
    case True
    have "y \<le> max y a" by simp
    also have "\<dots> \<le> fold max ys (max y a)" by (rule fold_max_ge)
    finally show ?thesis using True by simp
  next
    case False
    with Cons.prems have "x \<in> set ys" by simp
    from Cons.IH[OF this] show ?thesis by simp
  qed
qed

lemma next_id_fresh: "next_id ids \<notin> set ids"
  using fold_max_mem[of "next_id ids" ids 0] by (auto simp: next_id_def)

lemma unique_reviews_filter:
  assumes "unique_reviews s" "reviews s' = filter P (reviews s)"
  shows "unique_reviews s'"
  using assms by (simp add: unique_reviews_def distinct_map_filter)

lemma unique_reviews_same:
  assumes "unique_reviews s" "reviews s' = reviews s"
  shows "unique_reviews s'"
  using assms by (simp add: unique_reviews_def)

lemma get_or_create_reviews: "get_or_create s un em = Inr (u, s') \<Longrightarrow> reviews s' = reviews s"
  by (auto simp: get_or_create_def Let_def split: list.splits option.splits if_splits)

lemma register_reviews: "reviews (snd (register e s data)) = reviews s"
  by (auto simp: register_def Let_def send_confirm_mail_def get_or_create_def
      split: list.splits sum.splits option.splits if_splits prod.splits)

lemma user_create_reviews: "reviews (snd (UserViewSet_create e s actor data)) = reviews s"
  by (auto simp: UserViewSet_create_def Let_def split: sum.splits)

lemma save_user_reviews: "save_user s u = Inr s' \<Longrightarrow> reviews s' = reviews s"
  by (auto simp: save_user_def split: if_splits)

lemma user_update_reviews: "reviews (snd (UserViewSet_update e s actor method un data)) = reviews s"
  by (auto simp: UserViewSet_update_def split: sum.splits dest: save_user_reviews)

lemma own_profile_reviews: "reviews (snd (users_own_profile e s actor method data)) = reviews s"
  by (auto simp: users_own_profile_def split: option.splits sum.splits dest: save_user_reviews)

lemma user_destroy_reviews:
  "reviews (snd (UserViewSet_destroy e s actor un)) = reviews s
   \<or> (\<exists>P. reviews (snd (UserViewSet_destroy e s actor un)) = filter P (reviews s))"
  by (auto simp: UserViewSet_destroy_def delete_user_def Let_def split: sum.splits)

lemma category_destroy_reviews: "reviews (snd (CategoryViewSet_destroy e s actor slug)) = reviews s"
  by (auto simp: CategoryViewSet_destroy_def delete_category_def split: sum.splits)

lemma genre_destroy_reviews: "reviews (snd (GenreViewSet_destroy e s actor slug)) = reviews s"
  by (auto simp: GenreViewSet_destroy_def delete_genre_def split: sum.splits)

lemma title_destroy_reviews:
  "reviews (snd (TitleViewSet_destroy e s actor pk)) = reviews s
   \<or> (\<exists>P. reviews (snd (TitleViewSet_destroy e s actor pk)) = filter P (reviews s))"
  by (auto simp: TitleViewSet_destroy_def delete_title_def Let_def split: sum.splits)

lemma review_destroy_reviews:
  "reviews (snd (ReviewViewSet_destroy e s actor tid pk)) = reviews s
   \<or> (\<exists>P. reviews (snd (ReviewViewSet_destroy e s actor tid pk)) = filter P (reviews s))"
  by (auto simp: ReviewViewSet_destroy_def delete_review_def split: sum.splits)

lemma insert_review_unique:
  assumes inv: "unique_reviews s" and fresh: "review_id r \<notin> set (map review_id (reviews s))"
    and ins: "insert_review s r = Inr s'"
  shows "unique_reviews s'"
proof -
  from ins have u: "unique_review s r" and s': "reviews s' = reviews s @ [r]"
    by (auto simp: insert_review_def split: if_splits)
  from fresh have "\<forall>x\<in>set (reviews s). review_id x \<noteq> review_id r"
    by (metis image_eqI list.set_map)
  then have "filter (\<lambda>x. review_id x \<noteq> review_id r) (reviews s) = reviews s"
    by (simp add: filter_id_conv)
  with u have "(title r, author r) \<notin> set (map (\<lambda>x. (title x, author x)) (reviews s))"
    by (simp add: unique_review_def)
  with inv fresh s' show ?thesis by (simp add: unique_reviews_def)
qed

lemma review_create_unique:
  assumes inv: "unique_reviews s"
  shows "unique_reviews (snd (ReviewViewSet_create e s actor tid now data))"
proof (cases "IsAdminModeratorOwnerOrReadOnly e ''POST'' actor")
  case False
  with inv show ?thesis by (simp add: ReviewViewSet_create_def)
next
  case perm: True
  show ?thesis
  proof (cases "ReviewSerializer_is_valid s ''POST'' actor tid False data")
    case (Inl err)
    with inv perm show ?thesis by (simp add: ReviewViewSet_create_def)
  next
    case vd: (Inr vd)
    show ?thesis
    proof (cases "get_object_or_404 (filter (\<lambda>x. title_id x = tid) (titles s))")
      case (Inl err)
      with inv perm vd show ?thesis by (simp add: ReviewViewSet_create_def)
    next
      case t: (Inr t)
      show ?thesis
      proof (cases "\<exists>a tx sc. actor = Some a \<and> d_text vd = Some tx \<and> d_score vd = Some sc")
        case False
        with inv perm vd t show ?thesis
          by (auto simp: ReviewViewSet_create_def split: option.splits)
      next
        case True
        then obtain a tx sc where a: "actor = Some a" "d_text vd = Some tx" "d_score vd = Some sc"
          by blast
        let ?r = "\<lparr>review_id = next_id (map review_id (reviews s)), title = title_id t,
                    review_text = tx, author = user_id a, score = sc, pub_date = now\<rparr>"
        show ?thesis
        proof (cases "insert_review s ?r")
          case (Inl err)
          with inv perm vd t a show ?thesis by (simp add: ReviewViewSet_create_def Let_def)
        next
          case (Inr s')
          have "review_id ?r \<notin> set (map review_id (reviews s))"
            using next_id_fresh[of "map review_id (reviews s)"] by simp
          from insert_review_unique[OF inv this Inr] perm vd t a Inr
          show ?thesis by (simp add: ReviewViewSet_create_def Let_def)
        qed
      qed
    qed
  qed
qed

lemma update_review_unique:
  assumes inv: "unique_reviews s" and obj: "obj \<in> set (reviews s)"
    and r: "review_id r = review_id obj" "title r = title obj" "author r = author obj"
    and upd: "update_review s r = Inr s'"
  shows "unique_reviews s'"
proof -
  from upd have s': "reviews s' = map (\<lambda>x. if review_id x = review_id r then r else x) (reviews s)"
    by (auto simp: update_review_def split: if_splits)
  from inv have d: "distinct (map review_id (reviews s))" by (simp add: unique_reviews_def)
  have same: "\<And>x. x \<in> set (reviews s) \<Longrightarrow> review_id x = review_id obj \<Longrightarrow> x = obj"
    using d obj by (meson distinct_map inj_onD)
  have 1: "map review_id (reviews s') = map review_id (reviews s)"
    unfolding s' by (simp add: comp_def if_distrib cong: if_cong)
  have "\<And>x. x \<in> set (reviews s) \<Longrightarrow>
      (title (if review_id x = review_id r then r else x),
       author (if review_id x = review_id r then r else x)) = (title x, author x)"
    using same r by auto
  then have 2: "map (\<lambda>x. (title x, author x)) (reviews s') = map (\<lambda>x. (title x, author x)) (reviews s)"
    unfolding s' by (simp add: comp_def)
  from inv show ?thesis unfolding unique_reviews_def 1 2 .
qed

lemma review_update_unique:
  assumes inv: "unique_reviews s"
  shows "unique_reviews (snd (ReviewViewSet_update e s actor partial tid pk data))"
proof -
  let ?m = "if partial then ''PATCH'' else ''PUT''"
  show ?thesis
  proof (cases "IsAdminModeratorOwnerOrReadOnly e ?m actor")
    case False
    with inv show ?thesis by (simp add: ReviewViewSet_update_def Let_def)
  next
    case perm: True
    show ?thesis
    proof (cases "ReviewViewSet_get_object e s actor ?m tid pk")
      case (Inl err)
      with inv perm show ?thesis by (simp add: ReviewViewSet_update_def Let_def)
    next
      case obj: (Inr obj)
      show ?thesis
      proof (cases "ReviewSerializer_is_valid s ?m actor tid partial data")
        case (Inl err)
        with inv perm obj show ?thesis by (simp add: ReviewViewSet_update_def Let_def)
      next
        case vd: (Inr vd)
        let ?r = "obj\<lparr>review_text := (case d_text vd of None \<Rightarrow> review_text obj | Some v \<Rightarrow> v),
                       score := (case d_score vd of None \<Rightarrow> score obj | Some v \<Rightarrow> v)\<rparr>"
        show ?thesis
        proof (cases "update_review s ?r")
          case (Inl err)
          with inv perm obj vd show ?thesis by (simp add: ReviewViewSet_update_def Let_def)
        next
          case (Inr s')
          from review_get_object_row[OF obj] have "obj \<in> set (reviews s)" by simp
          from update_review_unique[OF inv this _ _ _ Inr] perm obj vd Inr
          show ?thesis by (simp add: ReviewViewSet_update_def Let_def)
        qed
      qed
    qed
  qed
qed

lemma handle_unique:
  assumes inv: "unique_reviews s"
  shows "unique_reviews (handle e s req)"
proof (cases req)
  case (Register d)
  with unique_reviews_same[OF inv register_reviews] show ?thesis by simp
next
  case (UserCreate a d)
  with unique_reviews_same[OF inv user_create_reviews] show ?thesis by simp
next
  case (UserUpdate a m un d)
  with unique_reviews_same[OF inv user_update_reviews] show ?thesis by simp
next
  case (UserDestroy a un)
  with user_destroy_reviews[of e s a un] unique_reviews_same[OF inv] unique_reviews_filter[OF inv]
  show ?thesis by auto
next
  case (OwnProfile a m d)
  with unique_reviews_same[OF inv own_profile_reviews] show ?thesis by simp
next
  case (CategoryDestroy a sl)
  with unique_reviews_same[OF inv category_destroy_reviews] show ?thesis by simp
next
  case (GenreDestroy a sl)
  with unique_reviews_same[OF inv genre_destroy_reviews] show ?thesis by simp
next
  case (TitleDestroy a pk)
  with title_destroy_reviews[of e s a pk] unique_reviews_same[OF inv] unique_reviews_filter[OF inv]
  show ?thesis by auto
next
  case (ReviewCreate a tid now d)
  with review_create_unique[OF inv] show ?thesis by simp
next
  case (ReviewUpdate a p tid pk d)
  with review_update_unique[OF inv] show ?thesis by simp
next
  case (ReviewDestroy a tid pk)
  with review_destroy_reviews[of e s a tid pk] unique_reviews_same[OF inv] unique_reviews_filter[OF inv]
  show ?thesis by auto
qed

lemma foldl_handle_unique:
  "unique_reviews s \<Longrightarrow> unique_reviews (foldl (handle e) s reqs)"
  by (induction reqs arbitrary: s) (simp_all add: handle_unique)

lemma empty_unique: "unique_reviews empty_store"
  by (simp add: unique_reviews_def empty_store_def)

lemma insert_review_duplicate:
  assumes "r0 \<in> set (reviews s)" "title r0 = title r" "author r0 = author r"
    "review_id r0 \<noteq> review_id r"
  shows "insert_review s r = Inl IntegrityError"
proof -
  from assms have "r0 \<in> set (filter (\<lambda>x. review_id x \<noteq> review_id r) (reviews s))" by simp
  then have "(title r0, author r0) \<in>
      set (map (\<lambda>x. (title x, author x)) (filter (\<lambda>x. review_id x \<noteq> review_id r) (reviews s)))"
    by (metis (mono_tags, lifting) image_eqI list.set_map)
  with assms show ?thesis by (simp add: insert_review_def unique_review_def)
qed

lemma second_create_fails:
  assumes perm: "IsAdminModeratorOwnerOrReadOnly e ''POST'' (Some a)"
    and t: "get_object_or_404 (filter (\<lambda>x. title_id x = tid) (titles s)) = Inr t"
    and r0: "r0 \<in> set (reviews s)" "title r0 = tid" "author r0 = user_id a"
  shows "\<exists>errs. ReviewViewSet_create e s (Some a) tid now data = (Inl (ValidationError errs), s)
           \<and> (field_errors ''text'' (text_field False (d_text data))
                 @ field_errors ''score'' (score_field False (d_score data)) = []
               \<longrightarrow> errs = [(''non_field_errors'', [''only one review per title''])])"
proof -
  from get_object_filter[OF t] have "title_id t = tid" by simp
  with r0 have "r0 \<in> set (filter (\<lambda>r. author r = user_id a \<and> title r = title_id t) (reviews s))"
    by simp
  then have ne: "filter (\<lambda>r. author r = user_id a \<and> title r = title_id t) (reviews s) \<noteq> []"
    by (metis empty_iff list.set(1))
  show ?thesis
  proof (cases "field_errors ''text'' (text_field False (d_text data))
                 @ field_errors ''score'' (score_field False (d_score data)) = []")
    case True
    then have "ReviewSerializer_is_valid s ''POST'' (Some a) tid False data
        = Inl (ValidationError [(''non_field_errors'', [''only one review per title''])])"
      using t ne by (simp add: ReviewSerializer_is_valid_def Let_def)
    with perm True show ?thesis by (simp add: ReviewViewSet_create_def)
  next
    case False
    then have "ReviewSerializer_is_valid s ''POST'' (Some a) tid False data
        = Inl (ValidationError (field_errors ''text'' (text_field False (d_text data))
                 @ field_errors ''score'' (score_field False (d_score data))))"
      by (simp add: ReviewSerializer_is_valid_def Let_def)
    with perm False show ?thesis by (simp add: ReviewViewSet_create_def)
  qed
qed

text \<open>
  Claim C1, as amended. On a store where no two reviews have the same title and
  author, every request leaves a store of that kind, so every store reached from the
  empty one is of that kind. The database enforces it: inserting a row whose title and
  author another row has is refused with \<open>IntegrityError\<close>. A second
  \<open>create\<close> for a title and a requester that have a review fails with
  \<open>ValidationError\<close>, which is the error of the duplicate check when the fields
  are valid, and leaves the store as it was.
\<close>

theorem one_review_per_pair:
  assumes inv: "unique_reviews s"
  shows "unique_reviews (handle e s req)
       \<and> unique_reviews (foldl (handle e) empty_store reqs)
       \<and> (\<forall>r0\<in>set (reviews s). title r0 = title r \<and> author r0 = author r
              \<and> review_id r0 \<noteq> review_id r \<longrightarrow> insert_review s r = Inl IntegrityError)
       \<and> (IsAdminModeratorOwnerOrReadOnly e ''POST'' (Some a)
           \<and> get_object_or_404 (filter (\<lambda>x. title_id x = tid) (titles s)) = Inr t
           \<and> (\<exists>r0\<in>set (reviews s). title r0 = tid \<and> author r0 = user_id a)
           \<longrightarrow> (\<exists>errs. ReviewViewSet_create e s (Some a) tid now data
                          = (Inl (ValidationError errs), s)
                   \<and> (field_errors ''text'' (text_field False (d_text data))
                         @ field_errors ''score'' (score_field False (d_score data)) = []
                       \<longrightarrow> errs = [(''non_field_errors'', [''only one review per title''])])))"
proof (intro conjI ballI impI)
  show "unique_reviews (handle e s req)" by (rule handle_unique[OF inv])
  show "unique_reviews (foldl (handle e) empty_store reqs)"
    by (rule foldl_handle_unique[OF empty_unique])
next
  fix r0 assume "r0 \<in> set (reviews s)"
    "title r0 = title r \<and> author r0 = author r \<and> review_id r0 \<noteq> review_id r"
  then show "insert_review s r = Inl IntegrityError"
    using insert_review_duplicate[of r0 s r] by simp
next
  assume a: "IsAdminModeratorOwnerOrReadOnly e ''POST'' (Some a)
           \<and> get_object_or_404 (filter (\<lambda>x. title_id x = tid) (titles s)) = Inr t
           \<and> (\<exists>r0\<in>set (reviews s). title r0 = tid \<and> author r0 = user_id a)"
  then obtain r0 where "r0 \<in> set (reviews s)" "title r0 = tid" "author r0 = user_id a" by blast
  with a second_create_fails[of e a tid s t r0 now data]
  show "\<exists>errs. ReviewViewSet_create e s (Some a) tid now data = (Inl (ValidationError errs), s)
                   \<and> (field_errors ''text'' (text_field False (d_text data))
                         @ field_errors ''score'' (score_field False (d_score data)) = []
                       \<longrightarrow> errs = [(''non_field_errors'', [''only one review per title''])])"
    by blast
qed

lemma alice_second_review:
  "ReviewViewSet_create sample_env review_store (Some alice) 1 5 (review_request ''fine'' 8)
     = (Inl (ValidationError [(''non_field_errors'', [''only one review per title''])]),
        review_store)"
proof -
  have t: "get_object_or_404 (filter (\<lambda>x. title_id x = 1) (titles review_store)) = Inr film_title"
    by (simp add: get_object_or_404_def review_store_def catalog_store_def film_title_def)
  have r: "alice_review \<in> set (reviews review_store)" "title alice_review = 1"
    "author alice_review = user_id alice"
    by (simp_all add: review_store_def alice_review_def alice_def)
  have f: "field_errors ''text'' (text_field False (d_text (review_request ''fine'' 8)))
         @ field_errors ''score'' (score_field False (d_score (review_request ''fine'' 8))) = []"
    by (simp add: review_request_def text_field_def CharField_def strip_good run_validators_def
        ProhibitNullCharactersValidator_def score_field_in_range field_errors_def)
  from second_create_fails[OF create_perm_alice t r, of 5 "review_request ''fine'' 8"] f
  show ?thesis by auto
qed

lemma bob_first_review:
  "ReviewViewSet_create sample_env review_store (Some admin) 1 5 (review_request ''fine'' 8)
     = (Inr (\<lparr>review_id = 2, title = 1, review_text = ''fine'', author = 1, score = 8,
              pub_date = 5\<rparr>, 201),
        review_store\<lparr>reviews := [alice_review,
           \<lparr>review_id = 2, title = 1, review_text = ''fine'', author = 1, score = 8,
              pub_date = 5\<rparr>]\<rparr>)"
  by (simp add: ReviewViewSet_create_def ReviewSerializer_is_valid_def Let_def
      review_request_def text_field_def CharField_def strip_good run_validators_def
      ProhibitNullCharactersValidator_def score_field_in_range field_errors_def field_value_def
      get_object_or_404_def review_store_def catalog_store_def film_title_def
      alice_review_def admin_def sample_env_def insert_review_def unique_review_def
      next_id_def HTTP_201_CREATED_def)

text \<open>
  The administrator adds a first review of the title alice has reviewed; alice's second
  review of it is refused.
\<close>

theorem one_review_per_pair_witness:
  "unique_reviews review_store
   \<and> unique_reviews (handle sample_env review_store
        (ReviewCreate (Some admin) 1 5 (review_request ''fine'' 8)))
   \<and> map (\<lambda>r. (title r, author r)) (reviews (handle sample_env review_store
        (ReviewCreate (Some admin) 1 5 (review_request ''fine'' 8)))) = [(1, 2), (1, 1)]
   \<and> ReviewViewSet_create sample_env review_store (Some alice) 1 5 (review_request ''fine'' 8)
     = (Inl (ValidationError [(''non_field_errors'', [''only one review per title''])]),
        review_store)"
proof -
  from one_review_per_pair[OF unique_review_store, of sample_env
      "ReviewCreate (Some admin) 1 5 (review_request ''fine'' 8)", THEN conjunct1]
  have 1: "unique_reviews (handle sample_env review_store
        (ReviewCreate (Some admin) 1 5 (review_request ''fine'' 8)))" .
  have 2: "map (\<lambda>r. (title r, author r)) (reviews (handle sample_env review_store
        (ReviewCreate (Some admin) 1 5 (review_request ''fine'' 8)))) = [(1, 2), (1, 1)]"
    by (simp add: bob_first_review del: One_nat_def) (simp add: alice_review_def)
  from unique_review_store 1 2 alice_second_review show ?thesis by (simp only: simp_thms)
qed

text \<open>
  Claim C1 as it is written fails on the error: alice's second review fails with the
  serializer's \<open>ValidationError\<close>, not with a conflict error.
\<close>

theorem one_review_per_pair_counterexample:
  "ReviewViewSet_create sample_env review_store (Some alice) 1 5 (review_request ''fine'' 8)
     = (Inl (ValidationError [(''non_field_errors'', [''only one review per title''])]),
        review_store)
   \<and> fst (ReviewViewSet_create sample_env review_store (Some alice) 1 5
        (review_request ''fine'' 8)) \<noteq> Inl ConflictError"
  by (simp add: alice_second_review del: One_nat_def)

end
